theory Spec2Isabelle
  imports Complex_Main "HOL-Library.Sublist"
begin

section \<open>The host language: numbers, exceptions, outcomes\<close>

subsection \<open>Floats\<close>

text \<open>
  A Python float is an IEEE 754 binary64 value. The model keeps its numeric value: a
  finite double is \<open>Fin x\<close> with \<open>x\<close> the real number it denotes, and the three special
  values are constructors of their own. The two zeros are one value \<open>Fin 0\<close>: they are
  equal under Python's \<open>==\<close>, and no operation of \<open>calculator.py\<close> tells them apart
  (a division by either raises).
\<close>

datatype pyfloat = Fin real | PInf | NInf | NaN

text \<open>
  Rounding to nearest, ties to even, as the hardware does after every operation.
  \<open>binade x\<close> is the exponent \<open>e\<close> with \<open>2^e \<le> |x| < 2^(e+1)\<close>, not below the
  exponent \<open>-1022\<close> of the subnormal range; a double has 53 significant bits, so its
  last bit is worth \<open>2^(e-52)\<close>. A rounded magnitude of \<open>2^1024\<close> or more overflows to
  an infinity.
\<close>

definition round_half_even :: "real \<Rightarrow> int" where
  "round_half_even x =
     (let f = \<lfloor>x\<rfloor>; d = x - of_int f
      in if d < 1 / 2 then f else if 1 / 2 < d then f + 1 else if even f then f else f + 1)"

definition binade :: "real \<Rightarrow> int" where
  "binade x = max \<lfloor>log 2 \<bar>x\<bar>\<rfloor> (- 1022)"

definition round_double :: "real \<Rightarrow> pyfloat" where
  "round_double x =
     (if x = 0 then Fin 0
      else let u = 2 powr of_int (binade x - 52);
               r = of_int (round_half_even (x / u)) * u
           in if 2 ^ 1024 \<le> \<bar>r\<bar> then (if 0 < x then PInf else NInf) else Fin r)"

fun fneg :: "pyfloat \<Rightarrow> pyfloat" where
  "fneg (Fin x) = Fin (- x)"
| "fneg PInf = NInf"
| "fneg NInf = PInf"
| "fneg NaN = NaN"

fun fabs :: "pyfloat \<Rightarrow> pyfloat" where
  "fabs (Fin x) = Fin \<bar>x\<bar>"
| "fabs PInf = PInf"
| "fabs NInf = PInf"
| "fabs NaN = NaN"

fun fadd :: "pyfloat \<Rightarrow> pyfloat \<Rightarrow> pyfloat" where
  "fadd (Fin x) (Fin y) = round_double (x + y)"
| "fadd NaN b = NaN"
| "fadd a NaN = NaN"
| "fadd PInf NInf = NaN"
| "fadd NInf PInf = NaN"
| "fadd PInf b = PInf"
| "fadd NInf b = NInf"
| "fadd (Fin x) b = b"

definition fsub :: "pyfloat \<Rightarrow> pyfloat \<Rightarrow> pyfloat" where
  "fsub a b = fadd a (fneg b)"

text \<open>The sign of an infinity or of a non-zero finite value; zero and NaN have none.\<close>

fun fsign :: "pyfloat \<Rightarrow> int" where
  "fsign (Fin x) = (if x < 0 then - 1 else if 0 < x then 1 else 0)"
| "fsign PInf = 1"
| "fsign NInf = - 1"
| "fsign NaN = 0"

definition signed_inf :: "int \<Rightarrow> pyfloat" where
  "signed_inf s = (if s = 0 then NaN else if 0 < s then PInf else NInf)"

fun fmul :: "pyfloat \<Rightarrow> pyfloat \<Rightarrow> pyfloat" where
  "fmul (Fin x) (Fin y) = round_double (x * y)"
| "fmul NaN b = NaN"
| "fmul a NaN = NaN"
| "fmul a b = signed_inf (fsign a * fsign b)"

text \<open>IEEE division by a divisor that is not zero (Python checks for zero first).\<close>

fun fdiv :: "pyfloat \<Rightarrow> pyfloat \<Rightarrow> pyfloat" where
  "fdiv (Fin x) (Fin y) = round_double (x / y)"
| "fdiv NaN b = NaN"
| "fdiv a NaN = NaN"
| "fdiv (Fin x) b = Fin 0"
| "fdiv a (Fin y) = signed_inf (fsign a * fsign (Fin y))"
| "fdiv a b = NaN"

text \<open>
  The float remainder of CPython (\<open>float_rem\<close>): C's \<open>fmod\<close>, which is exact and has
  the sign of the dividend, then one float addition of the divisor when the signs differ.
  The divisor is not zero here.
\<close>

definition c_fmod :: "real \<Rightarrow> real \<Rightarrow> real" where
  "c_fmod x y = x - y * of_int (if 0 \<le> x / y then \<lfloor>x / y\<rfloor> else \<lceil>x / y\<rceil>)"

fun frem :: "pyfloat \<Rightarrow> pyfloat \<Rightarrow> pyfloat" where
  "frem (Fin x) (Fin y) =
     (let m = c_fmod x y
      in if m \<noteq> 0 \<and> ((y < 0) \<noteq> (m < 0)) then fadd (Fin m) (Fin y) else Fin m)"
| "frem NaN b = NaN"
| "frem a NaN = NaN"
| "frem (Fin x) b = (if x \<noteq> 0 \<and> ((fsign b < 0) \<noteq> (x < 0)) then b else Fin x)"
| "frem a b = NaN"

text \<open>Python's comparisons on floats: every comparison with NaN is false.\<close>

fun feq :: "pyfloat \<Rightarrow> pyfloat \<Rightarrow> bool" where
  "feq NaN b = False"
| "feq a NaN = False"
| "feq a b = (a = b)"

fun flt :: "pyfloat \<Rightarrow> pyfloat \<Rightarrow> bool" where
  "flt (Fin x) (Fin y) = (x < y)"
| "flt NaN b = False"
| "flt a NaN = False"
| "flt NInf b = (b \<noteq> NInf)"
| "flt a PInf = (a \<noteq> PInf)"
| "flt a b = False"

definition isinf :: "pyfloat \<Rightarrow> bool" where
  "isinf x = (x = PInf \<or> x = NInf)"

definition isnan :: "pyfloat \<Rightarrow> bool" where
  "isnan x = (x = NaN)"

subsection \<open>Numbers, objects, exceptions\<close>

text \<open>
  The arithmetic functions are annotated \<open>float\<close> and called with ints by the tests, so a
  number is an unbounded int or a float (a bool is an int in Python and is identified with
  0 and 1). \<open>eval\<close> can return other objects as well: a builtin function, the module
  \<open>math\<close>, or any other object, of which only the type name is kept.
\<close>

datatype pynum = PyInt int | PyFloat pyfloat

datatype pyval = Num pynum | Builtin string | Module | Object string

datatype exc_class =
    ZeroDivisionError | OverflowError | ValueError | TypeError | SyntaxError
  | NameError | AttributeError | OtherException string | CalculatorError

text \<open>
  An exception is its class and its text \<open>str(e)\<close>. Every class above derives from
  \<open>Exception\<close>; a subclass is identified with the listed class the handlers match it as,
  and \<open>OtherException\<close> is any further subclass of \<open>Exception\<close>.
\<close>

datatype py_exception = Exc exc_class string

datatype 'a outcome = Returned 'a | Raised py_exception

fun bind :: "'a outcome \<Rightarrow> ('a \<Rightarrow> 'b outcome) \<Rightarrow> 'b outcome" where
  "bind (Returned x) f = f x"
| "bind (Raised e) f = Raised e"

subsection \<open>Conversions and arithmetic on numbers\<close>

text \<open>
  The conversion of an argument to a C double, as \<open>math.isinf\<close>, \<open>math.isnan\<close>,
  \<open>math.sqrt\<close> and \<open>float()\<close> do it: an int is rounded to the nearest double and is
  refused when that overflows; an object that is no number is a TypeError.
  Exception texts are those of CPython 3.11.
\<close>

definition int_to_double :: "int \<Rightarrow> pyfloat outcome" where
  "int_to_double n =
     (case round_double (of_int n) of
        Fin r \<Rightarrow> Returned (Fin r)
      | _ \<Rightarrow> Raised (Exc OverflowError ''int too large to convert to float''))"

fun num_to_double :: "pynum \<Rightarrow> pyfloat outcome" where
  "num_to_double (PyInt n) = int_to_double n"
| "num_to_double (PyFloat x) = Returned x"

fun type_name :: "pyval \<Rightarrow> string" where
  "type_name (Num (PyInt n)) = ''int''"
| "type_name (Num (PyFloat x)) = ''float''"
| "type_name (Builtin f) = ''builtin_function_or_method''"
| "type_name Module = ''module''"
| "type_name (Object t) = t"

fun as_double :: "pyval \<Rightarrow> pyfloat outcome" where
  "as_double (Num n) = num_to_double n"
| "as_double v = Raised (Exc TypeError (''must be real number, not '' @ type_name v))"

definition math_isinf :: "pyval \<Rightarrow> bool outcome" where
  "math_isinf v = bind (as_double v) (\<lambda>x. Returned (isinf x))"

definition math_isnan :: "pyval \<Rightarrow> bool outcome" where
  "math_isnan v = bind (as_double v) (\<lambda>x. Returned (isnan x))"

text \<open>
  \<open>math.sqrt\<close>: the C library's \<open>sqrt\<close>, which IEEE 754 requires to be correctly
  rounded, behind CPython's domain check.
\<close>

fun c_sqrt :: "pyfloat \<Rightarrow> pyfloat outcome" where
  "c_sqrt (Fin x) =
     (if x < 0 then Raised (Exc ValueError ''math domain error'')
      else Returned (round_double (sqrt x)))"
| "c_sqrt PInf = Returned PInf"
| "c_sqrt NInf = Raised (Exc ValueError ''math domain error'')"
| "c_sqrt NaN = Returned NaN"

definition math_sqrt :: "pyval \<Rightarrow> pyfloat outcome" where
  "math_sqrt v = bind (as_double v) c_sqrt"

text \<open>
  The binary operators. Two ints are computed exactly; otherwise both operands are
  converted to doubles, the left one first, and the float operation is applied.
\<close>

definition float_op ::
  "(pyfloat \<Rightarrow> pyfloat \<Rightarrow> pynum outcome) \<Rightarrow> pynum \<Rightarrow> pynum \<Rightarrow> pynum outcome" where
  "float_op f a b = bind (num_to_double a) (\<lambda>x. bind (num_to_double b) (\<lambda>y. f x y))"

fun py_add :: "pynum \<Rightarrow> pynum \<Rightarrow> pynum outcome" where
  "py_add (PyInt a) (PyInt b) = Returned (PyInt (a + b))"
| "py_add a b = float_op (\<lambda>x y. Returned (PyFloat (fadd x y))) a b"

fun py_sub :: "pynum \<Rightarrow> pynum \<Rightarrow> pynum outcome" where
  "py_sub (PyInt a) (PyInt b) = Returned (PyInt (a - b))"
| "py_sub a b = float_op (\<lambda>x y. Returned (PyFloat (fsub x y))) a b"

fun py_mul :: "pynum \<Rightarrow> pynum \<Rightarrow> pynum outcome" where
  "py_mul (PyInt a) (PyInt b) = Returned (PyInt (a * b))"
| "py_mul a b = float_op (\<lambda>x y. Returned (PyFloat (fmul x y))) a b"

text \<open>
  True division. The quotient of two ints is the correctly rounded double of the exact
  quotient.
\<close>

fun py_truediv :: "pynum \<Rightarrow> pynum \<Rightarrow> pynum outcome" where
  "py_truediv (PyInt a) (PyInt b) =
     (if b = 0 then Raised (Exc ZeroDivisionError ''division by zero'')
      else case round_double (of_int a / of_int b) of
             Fin r \<Rightarrow> Returned (PyFloat (Fin r))
           | _ \<Rightarrow> Raised (Exc OverflowError ''integer division result too large for a float''))"
| "py_truediv a b =
     float_op (\<lambda>x y. if y = Fin 0 then Raised (Exc ZeroDivisionError ''float division by zero'')
                     else Returned (PyFloat (fdiv x y))) a b"

text \<open>
  The remainder. On ints it is the floor remainder, which is \<open>mod\<close> of HOL's \<open>int\<close>:
  both take the sign of the divisor.
\<close>

fun py_mod :: "pynum \<Rightarrow> pynum \<Rightarrow> pynum outcome" where
  "py_mod (PyInt a) (PyInt b) =
     (if b = 0 then Raised (Exc ZeroDivisionError ''integer division or modulo by zero'')
      else Returned (PyInt (a mod b)))"
| "py_mod a b =
     float_op (\<lambda>x y. if y = Fin 0 then Raised (Exc ZeroDivisionError ''float modulo'')
                     else Returned (PyFloat (frem x y))) a b"

text \<open>Python's \<open>==\<close> and \<open><\<close> on numbers; an int and a float are compared exactly.\<close>

fun py_eq :: "pynum \<Rightarrow> pynum \<Rightarrow> bool" where
  "py_eq (PyInt a) (PyInt b) = (a = b)"
| "py_eq (PyFloat x) (PyFloat y) = feq x y"
| "py_eq (PyInt a) (PyFloat y) = feq (Fin (of_int a)) y"
| "py_eq (PyFloat x) (PyInt b) = feq x (Fin (of_int b))"

fun py_lt :: "pynum \<Rightarrow> pynum \<Rightarrow> bool" where
  "py_lt (PyInt a) (PyInt b) = (a < b)"
| "py_lt (PyFloat x) (PyFloat y) = flt x y"
| "py_lt (PyInt a) (PyFloat y) = flt (Fin (of_int a)) y"
| "py_lt (PyFloat x) (PyInt b) = flt x (Fin (of_int b))"

subsection \<open>What the model takes from the host as given\<close>

text \<open>
  Four parts of the host are parameters of the model, because no definition of them is
  exact: the C library's \<open>log\<close>, \<open>sin\<close>, \<open>cos\<close> and \<open>tan\<close> behind CPython's error
  checks (\<open>libm\<close>, by function name), the power of two floats (\<open>float_pow\<close>, which can
  return a complex number), the text of the SyntaxError that a string is refused with
  (\<open>syntax_text\<close>), and \<open>eval\<close> on a string outside the grammar that \<open>py_eval\<close>
  below covers (\<open>eval_other\<close>).
\<close>

record host =
  libm :: "string \<Rightarrow> pyfloat \<Rightarrow> pyfloat outcome"
  float_pow :: "pyfloat \<Rightarrow> pyfloat \<Rightarrow> pyval outcome"
  syntax_text :: "string \<Rightarrow> string"
  eval_other :: "string \<Rightarrow> pyval outcome"

text \<open>
  \<open>**\<close>: an int to a non-negative int power is an exact int; every other case is
  the power of two floats.
\<close>

fun py_pow :: "host \<Rightarrow> pynum \<Rightarrow> pynum \<Rightarrow> pyval outcome" where
  "py_pow H (PyInt a) (PyInt b) =
     (if 0 \<le> b then Returned (Num (PyInt (a ^ nat b)))
      else bind (int_to_double a) (\<lambda>x. bind (int_to_double b) (\<lambda>y. float_pow H x y)))"
| "py_pow H a b = bind (num_to_double a) (\<lambda>x. bind (num_to_double b) (\<lambda>y. float_pow H x y))"

section \<open>calculator.py\<close>

subsection \<open>The arithmetic functions\<close>

definition calculator_error :: "string \<Rightarrow> 'a outcome" where
  "calculator_error msg = Raised (Exc CalculatorError msg)"

definition add :: "pynum \<Rightarrow> pynum \<Rightarrow> pynum outcome" where
  "add a b = py_add a b"

definition subtract :: "pynum \<Rightarrow> pynum \<Rightarrow> pynum outcome" where
  "subtract a b = py_sub a b"

definition multiply :: "pynum \<Rightarrow> pynum \<Rightarrow> pynum outcome" where
  "multiply a b = py_mul a b"

definition divide :: "pynum \<Rightarrow> pynum \<Rightarrow> pynum outcome" where
  "divide a b =
     (if py_eq b (PyInt 0) then calculator_error ''Division by zero is not allowed''
      else py_truediv a b)"

text \<open>
  \<open>power\<close>: the body of the \<open>try\<close>, then its one handler, which catches an
  OverflowError and nothing else.
\<close>

definition power_body :: "host \<Rightarrow> pynum \<Rightarrow> pynum \<Rightarrow> pyval outcome" where
  "power_body H base exponent =
     bind (py_pow H base exponent) (\<lambda>result.
     bind (math_isinf result) (\<lambda>inf.
       if inf then calculator_error ''Result is infinity''
       else bind (math_isnan result) (\<lambda>nan.
         if nan then calculator_error ''Invalid operation resulting in NaN''
         else Returned result)))"

fun power_handler :: "pyval outcome \<Rightarrow> pyval outcome" where
  "power_handler (Raised (Exc OverflowError m)) = calculator_error ''Number too large to represent''"
| "power_handler r = r"

definition power :: "host \<Rightarrow> pynum \<Rightarrow> pynum \<Rightarrow> pyval outcome" where
  "power H base exponent = power_handler (power_body H base exponent)"

definition square_root :: "pynum \<Rightarrow> pyfloat outcome" where
  "square_root n =
     (if py_lt n (PyInt 0) then calculator_error ''Cannot calculate square root of negative number''
      else math_sqrt (Num n))"

definition modulus :: "pynum \<Rightarrow> pynum \<Rightarrow> pynum outcome" where
  "modulus a b =
     (if py_eq b (PyInt 0) then calculator_error ''Modulus by zero is not allowed''
      else py_mod a b)"

text \<open>
  The comparison \<open>f(a, b) == f(b, a)\<close> of the results of two calls: it holds when both
  calls return and the two values are equal under Python's \<open>==\<close>.
\<close>

definition same_result :: "pynum outcome \<Rightarrow> pynum outcome \<Rightarrow> bool" where
  "same_result p q = (case p of Returned a \<Rightarrow> (case q of Returned b \<Rightarrow> py_eq a b | Raised e \<Rightarrow> False) | Raised e \<Rightarrow> False)"

text \<open>
  Two notions for the statement about \<open>modulus\<close>: the floor remainder
  \<open>x - y * floor(x / y)\<close> of two reals, and whether a number is a float.
\<close>

definition floor_remainder :: "real \<Rightarrow> real \<Rightarrow> real" where
  "floor_remainder x y = x - y * of_int \<lfloor>x / y\<rfloor>"

fun is_float :: "pynum \<Rightarrow> bool" where
  "is_float (PyFloat x) = True"
| "is_float (PyInt n) = False"

subsection \<open>Strings\<close>

text \<open>
  A character of the model is a code point below 256. \<open>str.replace\<close> and
  \<open>str.count\<close> scan from the left over occurrences that do not overlap; the counter
  is the number of characters of the current occurrence still to be skipped. With an
  empty pattern Python matches before every character and at the end.
\<close>

fun replace_from :: "string \<Rightarrow> string \<Rightarrow> nat \<Rightarrow> string \<Rightarrow> string" where
  "replace_from old new k [] = []"
| "replace_from old new (Suc k) (c # cs) = replace_from old new k cs"
| "replace_from old new 0 (c # cs) =
     (if prefix old (c # cs) then new @ replace_from old new (length old - 1) cs
      else c # replace_from old new 0 cs)"

definition replace :: "string \<Rightarrow> string \<Rightarrow> string \<Rightarrow> string" where
  "replace s old new =
     (if old = [] then new @ concat (map (\<lambda>c. c # new) s) else replace_from old new 0 s)"

fun count_from :: "string \<Rightarrow> nat \<Rightarrow> string \<Rightarrow> nat" where
  "count_from sub k [] = 0"
| "count_from sub (Suc k) (c # cs) = count_from sub k cs"
| "count_from sub 0 (c # cs) =
     (if prefix sub (c # cs) then Suc (count_from sub (length sub - 1) cs)
      else count_from sub 0 cs)"

definition count :: "string \<Rightarrow> string \<Rightarrow> nat" where
  "count s sub = (if sub = [] then Suc (length s) else count_from sub 0 s)"

text \<open>\<open>str.isdigit\<close> below code point 256: the ten digits and the superscripts 1, 2, 3.\<close>

definition isdigit :: "char \<Rightarrow> bool" where
  "isdigit c = (c \<in> set ''0123456789'' \<or> c = CHR 0xB9 \<or> c = CHR 0xB2 \<or> c = CHR 0xB3)"

subsection \<open>The expression evaluator\<close>

definition allowed_chars :: "char set" where
  "allowed_chars = set ''0123456789+-*/().**sqrt()log()sin()cos()tan()abs().''"

text \<open>
  The body of the \<open>try\<close>. \<open>ev\<close> is \<open>eval\<close> with the namespace \<open>safe_dict\<close>.
  Both \<open>raise CalculatorError\<close> statements stand inside the \<open>try\<close>.
\<close>

definition try_body :: "(string \<Rightarrow> pyval outcome) \<Rightarrow> string \<Rightarrow> pyfloat outcome" where
  "try_body ev safe_expression =
     bind (ev safe_expression) (\<lambda>result.
     bind (math_isinf result) (\<lambda>inf.
       if inf then calculator_error ''Result is infinity''
       else bind (math_isnan result) (\<lambda>nan.
         if nan then calculator_error ''Invalid operation resulting in NaN''
         else as_double result)))"

text \<open>
  The three handlers, in the order of the source. \<open>CalculatorError\<close> derives from
  \<open>Exception\<close>, so the last handler matches it too.
\<close>

fun handlers :: "pyfloat outcome \<Rightarrow> pyfloat outcome" where
  "handlers (Returned x) = Returned x"
| "handlers (Raised (Exc c m)) =
     (if c = ZeroDivisionError then calculator_error ''Division by zero in expression''
      else if c = ValueError \<or> c = TypeError \<or> c = SyntaxError
        then calculator_error (''Invalid expression: '' @ m)
      else calculator_error (''Error evaluating expression: '' @ m))"

definition substitute :: "string \<Rightarrow> string" where
  "substitute expression =
     (let safe_expression = replace expression ''sqrt'' ''math.sqrt'';
          safe_expression = replace safe_expression ''log'' ''math.log'';
          safe_expression = replace safe_expression ''sin'' ''math.sin'';
          safe_expression = replace safe_expression ''cos'' ''math.cos'';
          safe_expression = replace safe_expression ''tan'' ''math.tan'';
          safe_expression = replace safe_expression ''abs'' ''abs''
      in safe_expression)"

text \<open>
  The argument is a \<open>str\<close>, for which the first check \<open>not expression or not
  isinstance(expression, str)\<close> is the test for the empty string. The checks before the
  \<open>try\<close> raise outside it.
\<close>

definition evaluate_expression :: "(string \<Rightarrow> pyval outcome) \<Rightarrow> string \<Rightarrow> pyfloat outcome" where
  "evaluate_expression ev expression =
     (if expression = [] then calculator_error ''Invalid expression''
      else let expression = replace expression '' '' []
      in if \<not> list_all (\<lambda>c. c \<in> allowed_chars \<or> isdigit c \<or> c \<in> set ''+-*/()'') expression
           then calculator_error ''Expression contains invalid characters''
         else if count expression ''('' \<noteq> count expression '')''
           then calculator_error ''Unbalanced parentheses''
         else handlers (try_body ev (substitute expression)))"

section \<open>The host's \<open>eval\<close> on arithmetic expressions\<close>

text \<open>
  \<open>py_eval\<close> is Python's \<open>eval\<close> under the namespace \<open>safe_dict\<close> (the module
  \<open>math\<close>, the builtin \<open>abs\<close>, no other builtin), on the strings the model covers:
  decimal int literals of at most 4300 digits, decimal float literals, names of
  lower-case letters and digits, \<open>+ - * / **\<close>,
  unary \<open>+\<close> and \<open>-\<close>, parentheses, attribute access and calls with at most one
  argument, in expressions whose parse needs no more than 200 nested steps. Python parses
  the whole string before it evaluates any of it, so the model does too. On every other
  string (a keyword, \<open>//\<close>, a binary or octal literal, \<open>...\<close>, \<open>()\<close>, a starred
  argument, an attribute of a number, an operation on a complex number, any other
  character) the answer is \<open>Outside\<close> or \<open>None\<close> and \<open>py_eval\<close> hands the string to
  the parameter \<open>eval_other\<close>. The model has no bound on memory or time.
\<close>

subsection \<open>Tokens\<close>

datatype 'a parsed = Ok 'a | Invalid | Outside

datatype token =
    TNum pynum | TName string | TPlus | TMinus | TStar | TSlash | TPow | TLPar | TRPar | TDot

definition is_decimal :: "char \<Rightarrow> bool" where
  "is_decimal c = (c \<in> set ''0123456789'')"

definition is_lower :: "char \<Rightarrow> bool" where
  "is_lower c = (c \<in> set ''abcdefghijklmnopqrstuvwxyz'')"

definition is_name_char :: "char \<Rightarrow> bool" where
  "is_name_char c = (is_lower c \<or> is_decimal c)"

definition is_name_start :: "char \<Rightarrow> bool" where
  "is_name_start c = (is_lower c \<or> c \<in> set ''ABCDEFGHIJKLMNOPQRSTUVWXYZ_'')"

definition py_keywords :: "string list" where
  "py_keywords = [''and'', ''as'', ''assert'', ''async'', ''await'', ''break'', ''class'',
     ''continue'', ''def'', ''del'', ''elif'', ''else'', ''except'', ''finally'', ''for'',
     ''from'', ''global'', ''if'', ''import'', ''in'', ''is'', ''lambda'', ''nonlocal'',
     ''not'', ''or'', ''pass'', ''raise'', ''return'', ''try'', ''while'', ''with'', ''yield'']"

definition digit_value :: "char \<Rightarrow> nat" where
  "digit_value c = of_char c - 48"

definition decimal_value :: "string \<Rightarrow> nat" where
  "decimal_value ds = foldl (\<lambda>n c. 10 * n + digit_value c) 0 ds"

text \<open>
  A decimal int literal must not start with a zero unless it is all zeros. Recent
  versions of CPython refuse an int literal of more than 4300 digits and older ones do
  not, so the model leaves such a literal to the host.
\<close>

definition int_literal :: "string \<Rightarrow> token parsed" where
  "int_literal ds =
     (if 4300 < length ds then Outside
      else if hd ds = CHR ''0'' \<and> \<not> list_all (\<lambda>c. c = CHR ''0'') ds then Invalid
      else Ok (TNum (PyInt (int (decimal_value ds)))))"

definition float_literal :: "string \<Rightarrow> string \<Rightarrow> token parsed" where
  "float_literal ds fs =
     Ok (TNum (PyFloat (round_double
           (real (decimal_value ds) + real (decimal_value fs) / 10 ^ length fs))))"

fun cons_token :: "token parsed \<Rightarrow> token list parsed \<Rightarrow> token list parsed" where
  "cons_token (Ok t) (Ok ts) = Ok (t # ts)"
| "cons_token Outside r = Outside"
| "cons_token t Outside = Outside"
| "cons_token t r = Invalid"

definition unless_name_follows :: "string \<Rightarrow> token list parsed \<Rightarrow> token list parsed" where
  "unless_name_follows rest r = (if rest \<noteq> [] \<and> is_name_start (hd rest) then Outside else r)"

function lex :: "string \<Rightarrow> token list parsed" where
  "lex [] = Ok []"
| "lex (c # cs) =
     (if is_decimal c then
        (if dropWhile is_decimal cs \<noteq> [] \<and> hd (dropWhile is_decimal cs) = CHR ''.'' then
           unless_name_follows (dropWhile is_decimal (tl (dropWhile is_decimal cs)))
             (cons_token
                (float_literal (c # takeWhile is_decimal cs)
                   (takeWhile is_decimal (tl (dropWhile is_decimal cs))))
                (lex (dropWhile is_decimal (tl (dropWhile is_decimal cs)))))
         else
           unless_name_follows (dropWhile is_decimal cs)
             (cons_token (int_literal (c # takeWhile is_decimal cs))
                (lex (dropWhile is_decimal cs))))
      else if c = CHR ''.'' then
        (if cs \<noteq> [] \<and> is_decimal (hd cs) then
           unless_name_follows (dropWhile is_decimal cs)
             (cons_token (float_literal [] (takeWhile is_decimal cs)) (lex (dropWhile is_decimal cs)))
         else if cs \<noteq> [] \<and> hd cs = CHR ''.'' then Outside
         else cons_token (Ok TDot) (lex cs))
      else if is_lower c then
        (if c # takeWhile is_name_char cs \<in> set py_keywords then Outside
         else cons_token (Ok (TName (c # takeWhile is_name_char cs))) (lex (dropWhile is_name_char cs)))
      else if c = CHR ''*'' then
        (if cs \<noteq> [] \<and> hd cs = CHR ''*'' then cons_token (Ok TPow) (lex (tl cs))
         else cons_token (Ok TStar) (lex cs))
      else if c = CHR ''/'' then
        (if cs \<noteq> [] \<and> hd cs = CHR ''/'' then Outside else cons_token (Ok TSlash) (lex cs))
      else if c = CHR ''+'' then cons_token (Ok TPlus) (lex cs)
      else if c = CHR ''-'' then cons_token (Ok TMinus) (lex cs)
      else if c = CHR ''('' then cons_token (Ok TLPar) (lex cs)
      else if c = CHR '')'' then cons_token (Ok TRPar) (lex cs)
      else Outside)"
  by pat_completeness auto
termination
proof (relation "measure length")
  fix c :: char and cs :: string
  have "length (dropWhile is_decimal (tl (dropWhile is_decimal cs)))
          \<le> length (tl (dropWhile is_decimal cs))"
    by (rule length_dropWhile_le)
  also have "\<dots> \<le> length (dropWhile is_decimal cs)" by simp
  also have "\<dots> \<le> length cs" by (rule length_dropWhile_le)
  finally show "(dropWhile is_decimal (tl (dropWhile is_decimal cs)), c # cs) \<in> measure length"
    by simp
qed (auto simp: less_Suc_eq_le length_dropWhile_le)


subsection \<open>The grammar\<close>

text \<open>
  Python's expression grammar on these tokens:
  \<^verbatim>\<open>sum: term (('+'|'-') term)*      term: factor (('*'|'/') factor)*\<close>
  \<^verbatim>\<open>factor: ('+'|'-') factor | power  power: primary ['**' factor]\<close>
  \<^verbatim>\<open>primary: atom ('.' NAME | '(' [sum] ')')*   atom: NUMBER | NAME | '(' sum ')'\<close>
  The parser is one function over the grammar symbol being parsed; its first argument
  bounds the nesting and only ever decreases.
\<close>

datatype binop = Add | Sub | Mul | Div | Pow

datatype expr =
    ENum pynum | EName string | EAttr expr string | ECall0 expr | ECall1 expr expr
  | ENeg expr | EPos expr | EBin binop expr expr

fun then_parse ::
  "('a \<times> token list) parsed \<Rightarrow> ('a \<Rightarrow> token list \<Rightarrow> 'b parsed) \<Rightarrow> 'b parsed" where
  "then_parse (Ok (x, ts)) f = f x ts"
| "then_parse Invalid f = Invalid"
| "then_parse Outside f = Outside"

fun starred :: "token list \<Rightarrow> bool" where
  "starred (TStar # ts) = True"
| "starred (TPow # ts) = True"
| "starred ts = False"

fun closing :: "token list \<Rightarrow> bool" where
  "closing (TRPar # ts) = True"
| "closing ts = False"

datatype grammar_symbol =
    Sum | SumRest expr | Term | TermRest expr | Factor | Power | Primary | Trailers expr

primrec parse_at :: "nat \<Rightarrow> grammar_symbol \<Rightarrow> token list \<Rightarrow> (expr \<times> token list) parsed" where
  "parse_at 0 nt ts = Outside"
| "parse_at (Suc n) nt ts =
     (case nt of
        Sum \<Rightarrow> then_parse (parse_at n Term ts) (\<lambda>l. parse_at n (SumRest l))
      | SumRest l \<Rightarrow>
          (case ts of
             TPlus # r \<Rightarrow> then_parse (parse_at n Term r) (\<lambda>t. parse_at n (SumRest (EBin Add l t)))
           | TMinus # r \<Rightarrow> then_parse (parse_at n Term r) (\<lambda>t. parse_at n (SumRest (EBin Sub l t)))
           | _ \<Rightarrow> Ok (l, ts))
      | Term \<Rightarrow> then_parse (parse_at n Factor ts) (\<lambda>l. parse_at n (TermRest l))
      | TermRest l \<Rightarrow>
          (case ts of
             TStar # r \<Rightarrow> then_parse (parse_at n Factor r) (\<lambda>t. parse_at n (TermRest (EBin Mul l t)))
           | TSlash # r \<Rightarrow> then_parse (parse_at n Factor r) (\<lambda>t. parse_at n (TermRest (EBin Div l t)))
           | _ \<Rightarrow> Ok (l, ts))
      | Factor \<Rightarrow>
          (case ts of
             TPlus # r \<Rightarrow> then_parse (parse_at n Factor r) (\<lambda>e rest. Ok (EPos e, rest))
           | TMinus # r \<Rightarrow> then_parse (parse_at n Factor r) (\<lambda>e rest. Ok (ENeg e, rest))
           | _ \<Rightarrow> parse_at n Power ts)
      | Power \<Rightarrow>
          then_parse (parse_at n Primary ts) (\<lambda>b rest.
            case rest of
              TPow # r \<Rightarrow> then_parse (parse_at n Factor r) (\<lambda>e rest'. Ok (EBin Pow b e, rest'))
            | _ \<Rightarrow> Ok (b, rest))
      | Primary \<Rightarrow>
          (case ts of
             TNum v # r \<Rightarrow> parse_at n (Trailers (ENum v)) r
           | TName x # r \<Rightarrow> parse_at n (Trailers (EName x)) r
           | TLPar # r \<Rightarrow>
               if closing r \<or> starred r then Outside
               else then_parse (parse_at n Sum r) (\<lambda>e rest.
                      if closing rest then parse_at n (Trailers e) (tl rest) else Invalid)
           | _ \<Rightarrow> Invalid)
      | Trailers e \<Rightarrow>
          (case ts of
             TDot # r \<Rightarrow>
               (case r of TName a # r' \<Rightarrow> parse_at n (Trailers (EAttr e a)) r' | _ \<Rightarrow> Invalid)
           | TLPar # r \<Rightarrow>
               if closing r then parse_at n (Trailers (ECall0 e)) (tl r)
               else if starred r then Outside
               else then_parse (parse_at n Sum r) (\<lambda>a rest.
                      if closing rest then parse_at n (Trailers (ECall1 e a)) (tl rest)
                      else Invalid)
           | _ \<Rightarrow> Ok (e, ts)))"

definition parse :: "token list \<Rightarrow> expr parsed" where
  "parse ts = then_parse (parse_at 200 Sum ts) (\<lambda>e rest. if rest = [] then Ok e else Invalid)"

subsection \<open>Evaluation\<close>

text \<open>
  Operands are evaluated from the left, the function of a call before its argument; the
  first exception ends the evaluation.
\<close>

fun and_then :: "'a outcome option \<Rightarrow> ('a \<Rightarrow> 'b outcome option) \<Rightarrow> 'b outcome option" where
  "and_then None f = None"
| "and_then (Some (Raised e)) f = Some (Raised e)"
| "and_then (Some (Returned v)) f = f v"

definition quoted :: "string \<Rightarrow> string" where
  "quoted s = [CHR 0x27] @ s @ [CHR 0x27]"

definition number :: "pynum outcome \<Rightarrow> pyval outcome" where
  "number r = bind r (\<lambda>n. Returned (Num n))"

fun op_symbol :: "binop \<Rightarrow> string" where
  "op_symbol Add = ''+''"
| "op_symbol Sub = ''-''"
| "op_symbol Mul = ''*''"
| "op_symbol Div = ''/''"
| "op_symbol Pow = ''** or pow()''"

fun arith :: "host \<Rightarrow> binop \<Rightarrow> pynum \<Rightarrow> pynum \<Rightarrow> pyval outcome" where
  "arith H Add a b = number (py_add a b)"
| "arith H Sub a b = number (py_sub a b)"
| "arith H Mul a b = number (py_mul a b)"
| "arith H Div a b = number (py_truediv a b)"
| "arith H Pow a b = py_pow H a b"

fun binary :: "host \<Rightarrow> binop \<Rightarrow> pyval \<Rightarrow> pyval \<Rightarrow> pyval outcome option" where
  "binary H op (Num a) (Num b) = Some (arith H op a b)"
| "binary H op (Object t) b = None"
| "binary H op a (Object t) = None"
| "binary H op a b =
     Some (Raised (Exc TypeError (''unsupported operand type(s) for '' @ op_symbol op @ '': ''
             @ quoted (type_name a) @ '' and '' @ quoted (type_name b))))"

fun negative :: "pyval \<Rightarrow> pyval outcome option" where
  "negative (Num (PyInt n)) = Some (Returned (Num (PyInt (- n))))"
| "negative (Num (PyFloat x)) = Some (Returned (Num (PyFloat (fneg x))))"
| "negative (Object t) = None"
| "negative v =
     Some (Raised (Exc TypeError (''bad operand type for unary -: '' @ quoted (type_name v))))"

fun positive :: "pyval \<Rightarrow> pyval outcome option" where
  "positive (Num n) = Some (Returned (Num n))"
| "positive (Object t) = None"
| "positive v =
     Some (Raised (Exc TypeError (''bad operand type for unary +: '' @ quoted (type_name v))))"

fun py_abs :: "pyval \<Rightarrow> pyval outcome option" where
  "py_abs (Num (PyInt n)) = Some (Returned (Num (PyInt \<bar>n\<bar>)))"
| "py_abs (Num (PyFloat x)) = Some (Returned (Num (PyFloat (fabs x))))"
| "py_abs (Object t) = None"
| "py_abs v =
     Some (Raised (Exc TypeError (''bad operand type for abs(): '' @ quoted (type_name v))))"

definition math_functions :: "string list" where
  "math_functions = [''sqrt'', ''log'', ''sin'', ''cos'', ''tan'']"

fun attribute :: "pyval \<Rightarrow> string \<Rightarrow> pyval outcome option" where
  "attribute Module a = (if a \<in> set math_functions then Some (Returned (Builtin (''math.'' @ a))) else None)"
| "attribute v a = None"

fun overflows :: "pyval \<Rightarrow> bool" where
  "overflows (Num (PyInt n)) = (case int_to_double n of Raised e \<Rightarrow> True | Returned x \<Rightarrow> False)"
| "overflows v = False"

definition call_math :: "host \<Rightarrow> string \<Rightarrow> pyval \<Rightarrow> pyval outcome option" where
  "call_math H f v =
     (if f = ''math.sqrt'' then Some (bind (math_sqrt v) (\<lambda>y. Returned (Num (PyFloat y))))
      else if f = ''math.log'' \<and> overflows v then None
      else Some (bind (as_double v) (\<lambda>x. bind (libm H f x) (\<lambda>y. Returned (Num (PyFloat y))))))"

definition not_callable :: "pyval \<Rightarrow> pyval outcome option" where
  "not_callable f =
     Some (Raised (Exc TypeError (quoted (type_name f) @ '' object is not callable'')))"

fun call0 :: "pyval \<Rightarrow> pyval outcome option" where
  "call0 (Builtin f) =
     Some (Raised (Exc TypeError
       (if f = ''math.log'' then ''math.log requires 1 to 2 arguments''
        else f @ ''() takes exactly one argument (0 given)'')))"
| "call0 (Object t) = None"
| "call0 f = not_callable f"

fun call :: "host \<Rightarrow> pyval \<Rightarrow> pyval \<Rightarrow> pyval outcome option" where
  "call H (Builtin f) v = (if f = ''abs'' then py_abs v else call_math H f v)"
| "call H (Object t) v = None"
| "call H f v = not_callable f"

fun eval_expr :: "host \<Rightarrow> expr \<Rightarrow> pyval outcome option" where
  "eval_expr H (ENum n) = Some (Returned (Num n))"
| "eval_expr H (EName x) =
     Some (if x = ''math'' then Returned Module
           else if x = ''abs'' then Returned (Builtin ''abs'')
           else Raised (Exc NameError (''name '' @ quoted x @ '' is not defined'')))"
| "eval_expr H (EAttr e a) = and_then (eval_expr H e) (\<lambda>v. attribute v a)"
| "eval_expr H (ECall0 f) = and_then (eval_expr H f) call0"
| "eval_expr H (ECall1 f a) =
     and_then (eval_expr H f) (\<lambda>fv. and_then (eval_expr H a) (\<lambda>av. call H fv av))"
| "eval_expr H (ENeg e) = and_then (eval_expr H e) negative"
| "eval_expr H (EPos e) = and_then (eval_expr H e) positive"
| "eval_expr H (EBin op l r) =
     and_then (eval_expr H l) (\<lambda>a. and_then (eval_expr H r) (\<lambda>b. binary H op a b))"

definition py_eval :: "host \<Rightarrow> string \<Rightarrow> pyval outcome" where
  "py_eval H s =
     (case lex s of
        Outside \<Rightarrow> eval_other H s
      | Invalid \<Rightarrow> Raised (Exc SyntaxError (syntax_text H s))
      | Ok ts \<Rightarrow>
          (case parse ts of
             Outside \<Rightarrow> eval_other H s
           | Invalid \<Rightarrow> Raised (Exc SyntaxError (syntax_text H s))
           | Ok e \<Rightarrow> (case eval_expr H e of None \<Rightarrow> eval_other H s | Some r \<Rightarrow> r)))"

text \<open>
  A host for closed instances of theorems that hold for every host: each of its four
  parts raises, and none of them is consulted on the inputs it is used with.
\<close>

definition some_host :: host where
  "some_host =
     \<lparr>libm = (\<lambda>f x. Raised (Exc (OtherException ''NotModelled'') f)),
      float_pow = (\<lambda>x y. Raised (Exc (OtherException ''NotModelled'') ''pow'')),
      syntax_text = (\<lambda>s. ''invalid syntax''),
      eval_other = (\<lambda>s. Raised (Exc (OtherException ''NotModelled'') s))\<rparr>"

section \<open>Properties\<close>

subsection \<open>Rounding\<close>

lemma round_half_even_int: "round_half_even (of_int k) = k"
  by (simp add: round_half_even_def)

lemma round_double_exact:
  assumes "x / 2 powr of_int (binade x - 52) = of_int k" and "\<bar>x\<bar> < 2 ^ 1024"
  shows "round_double x = Fin x"
proof (cases "x = 0")
  case True
  then show ?thesis by (simp add: round_double_def)
next
  case False
  let ?u = "2 powr of_int (binade x - 52) :: real"
  have u: "0 < ?u" by simp
  have "x / ?u * ?u = x" using u by simp
  then have "of_int (round_half_even (x / ?u)) * ?u = x"
    by (simp only: assms(1) round_half_even_int)
  with False assms(2) show ?thesis by (simp add: round_double_def Let_def)
qed

lemma abs_int_bounds:
  assumes "n \<noteq> 0" and "\<bar>n\<bar> < 2 ^ 53"
  shows "1 \<le> \<bar>real_of_int n\<bar>" and "\<bar>real_of_int n\<bar> < 2 ^ 53"
proof -
  from assms(1) have "1 \<le> \<bar>n\<bar>" by linarith
  then have "real_of_int 1 \<le> real_of_int \<bar>n\<bar>" by (simp only: of_int_le_iff)
  then show "1 \<le> \<bar>real_of_int n\<bar>" by simp
  from assms(2) have "real_of_int \<bar>n\<bar> < real_of_int (2 ^ 53)" by (simp only: of_int_less_iff)
  then show "\<bar>real_of_int n\<bar> < 2 ^ 53" by simp
qed

lemma binade_int:
  assumes "n \<noteq> 0" and "\<bar>n\<bar> < 2 ^ 53"
  shows "0 \<le> binade (of_int n)" and "binade (of_int n) \<le> 52"
proof -
  note b = abs_int_bounds [OF assms]
  from b(1) have "0 \<le> log 2 \<bar>real_of_int n\<bar>" by simp
  then show "0 \<le> binade (of_int n)" by (simp add: binade_def)
  have "log 2 \<bar>real_of_int n\<bar> < 53"
    using log_less_iff [of 2 "\<bar>real_of_int n\<bar>" 53] b by (simp add: powr_numeral)
  then have "\<lfloor>log 2 \<bar>real_of_int n\<bar>\<rfloor> \<le> 52" by linarith
  then show "binade (of_int n) \<le> 52" by (simp add: binade_def)
qed

lemma round_double_int:
  assumes "\<bar>n\<bar> < 2 ^ 53"
  shows "round_double (of_int n) = Fin (of_int n)"
proof (cases "n = 0")
  case True
  then show ?thesis by (simp add: round_double_def)
next
  case False
  define e where "e = binade (of_int n)"
  have e: "0 \<le> e" "e \<le> 52" using binade_int [OF False assms] by (simp_all add: e_def)
  have "real_of_int n / 2 powr of_int (e - 52) = of_int n * 2 powr of_int (52 - e)"
    by (simp add: powr_diff field_simps)
  also have "(2::real) powr of_int (52 - e) = 2 ^ nat (52 - e)"
    using e by (simp add: powr_realpow [symmetric])
  finally have "real_of_int n / 2 powr of_int (binade (of_int n) - 52) = of_int (n * 2 ^ nat (52 - e))"
    by (simp add: e_def)
  moreover have "\<bar>real_of_int n\<bar> < 2 ^ 1024"
  proof -
    have "\<bar>real_of_int n\<bar> < 2 ^ 53" using abs_int_bounds [OF False assms] by simp
    also have "(2::real) ^ 53 \<le> 2 ^ 1024" by (rule power_increasing) simp_all
    finally show ?thesis .
  qed
  ultimately show ?thesis by (rule round_double_exact)
qed

lemma sqrt16: "sqrt 16 = 4" using real_sqrt_abs [of 4] by simp
lemma sqrt25: "sqrt 25 = 5" using real_sqrt_abs [of 5] by simp

lemma round_half_even_nonneg: "0 \<le> y \<Longrightarrow> 0 \<le> round_half_even y"
  by (auto simp: round_half_even_def Let_def)

lemma round_half_even_nonpos:
  assumes "y \<le> 0" shows "round_half_even y \<le> 0"
proof (cases "\<lfloor>y\<rfloor> = 0")
  case True
  then have "0 \<le> y" by linarith
  with assms have "y = 0" by simp
  then show ?thesis by (simp add: round_half_even_def)
next
  case False
  moreover have "\<lfloor>y\<rfloor> \<le> 0" using assms by linarith
  ultimately have "\<lfloor>y\<rfloor> + 1 \<le> 0" by linarith
  then show ?thesis by (auto simp: round_half_even_def Let_def)
qed

lemma round_double_pos:
  assumes "0 < z"
  shows "round_double z = PInf \<or> (\<exists>r. round_double z = Fin r \<and> 0 \<le> r)"
proof -
  let ?u = "2 powr of_int (binade z - 52) :: real"
  have "0 \<le> z / ?u" using assms by simp
  then have "0 \<le> round_half_even (z / ?u)" by (rule round_half_even_nonneg)
  then have "0 \<le> real_of_int (round_half_even (z / ?u)) * ?u" by simp
  then show ?thesis using assms by (simp add: round_double_def Let_def)
qed

lemma round_double_neg:
  assumes "z < 0"
  shows "round_double z = NInf \<or> (\<exists>r. round_double z = Fin r \<and> r \<le> 0)"
proof -
  let ?u = "2 powr of_int (binade z - 52) :: real"
  have "z / ?u \<le> 0" using assms by (simp add: divide_nonpos_pos)
  then have "round_half_even (z / ?u) \<le> 0" by (rule round_half_even_nonpos)
  then have "real_of_int (round_half_even (z / ?u)) * ?u \<le> 0"
    by (simp add: mult_nonpos_nonneg)
  then show ?thesis using assms by (simp add: round_double_def Let_def)
qed


lemma binade_eq:
  assumes "2 ^ k \<le> \<bar>x\<bar>" and "\<bar>x\<bar> < 2 ^ Suc k"
  shows "binade x = int k"
proof -
  have pos: "0 < \<bar>x\<bar>" using assms(1) by (smt (verit) zero_less_power)
  have "(2::real) powr of_int (int k) \<le> \<bar>x\<bar>" using assms(1) by (simp add: powr_realpow)
  moreover have "\<bar>x\<bar> < (2::real) powr of_int (int k + 1)"
    using assms(2) powr_realpow [of 2 "Suc k"] by (simp add: add.commute)
  ultimately have "\<lfloor>log 2 \<bar>x\<bar>\<rfloor> = int k"
    using floor_log_eq_powr_iff [of "\<bar>x\<bar>" 2 "int k"] pos by simp
  then show ?thesis by (simp add: binade_def)
qed

lemma round_half_even_bounds: "\<lfloor>y\<rfloor> \<le> round_half_even y \<and> round_half_even y \<le> \<lfloor>y\<rfloor> + 1"
  by (simp add: round_half_even_def Let_def)

lemma round_double_top:
  assumes "2 ^ 1023 \<le> x" and "x < 2 ^ 1024 - 2 ^ 971"
  shows "\<exists>r. round_double x = Fin r \<and> 2 ^ 1023 \<le> r"
proof -
  have x: "0 < x" using assms(1) by (smt (verit) zero_less_power)
  have "x < 2 ^ Suc 1023" using assms(2) by simp
  then have b: "binade x = 1023" using binade_eq [of 1023 x] assms(1) x by simp
  define y where "y = x / 2 ^ 971"
  define k where "k = round_half_even y"
  have u: "(2::real) powr of_int (binade x - 52) = 2 ^ 971"
    using powr_realpow [of 2 971] by (simp add: b)
  have "(2::real) ^ 1023 = 2 ^ 52 * 2 ^ 971" by (simp add: power_add [symmetric])
  then have y1: "2 ^ 52 \<le> y" using assms(1) by (simp add: y_def pos_le_divide_eq)
  have "(2::real) ^ 1024 - 2 ^ 971 = (2 ^ 53 - 1) * 2 ^ 971"
    by (simp add: algebra_simps power_add [symmetric])
  then have y2: "y < 2 ^ 53 - 1" using assms(2) by (simp add: y_def pos_divide_less_eq)
  have "(2::int) ^ 52 \<le> \<lfloor>y\<rfloor>" using y1 by (simp add: le_floor_iff)
  moreover have "\<lfloor>y\<rfloor> < 2 ^ 53 - 1" using y2 by (simp add: floor_less_iff)
  ultimately have k: "2 ^ 52 \<le> k" "k \<le> 2 ^ 53 - 1"
    using round_half_even_bounds [of y] unfolding k_def by linarith+
  define r where "r = real_of_int k * 2 ^ 971"
  have "(2::real) ^ 52 * 2 ^ 971 \<le> r"
    unfolding r_def using k(1) by (intro mult_right_mono) (simp_all add: of_int_le_iff [of "2^52" k, simplified])
  then have r1: "2 ^ 1023 \<le> r" by (simp add: power_add [symmetric])
  have "r \<le> (2 ^ 53 - 1) * 2 ^ 971"
    unfolding r_def using k(2) by (intro mult_right_mono) (simp_all add: of_int_le_iff [of k "2^53 - 1", simplified])
  also have "\<dots> < 2 ^ 1024" by (simp add: algebra_simps power_add [symmetric])
  finally have r2: "r < 2 ^ 1024" .
  have "0 \<le> r" using r1 by (smt (verit) zero_less_power)
  then have "\<bar>r\<bar> < 2 ^ 1024" using r2 by simp
  then have "round_double x = Fin r"
    using x by (simp add: round_double_def b powr_numeral Let_def r_def k_def y_def)
  with r1 show ?thesis by blast
qed

lemma round_double_overflow:
  assumes "2 ^ 1024 \<le> x"
  shows "round_double x = PInf"
proof -
  have x: "0 < x" using assms by (smt (verit) zero_less_power)
  define e where "e = \<lfloor>log 2 x\<rfloor>"
  have "1024 \<le> log 2 x"
    using le_log_iff [of 2 x 1024] x assms by (simp add: powr_numeral)
  then have e: "1024 \<le> e" by (simp add: e_def le_floor_iff)
  then have b: "binade x = e" using x by (simp add: binade_def e_def)
  have "2 powr of_int e \<le> x"
    using floor_log_eq_powr_iff [of x 2 e] x by (simp add: e_def)
  define u :: real where "u = 2 powr of_int (e - 52)"
  have u: "0 < u" by (simp add: u_def)
  have A: "(2::real) powr of_int e = 2 powr 52 * 2 powr of_int (e - 52)"
  proof -
    have "real_of_int e = 52 + real_of_int (e - 52)" by simp
    then have "(2::real) powr of_int e = 2 powr (52 + real_of_int (e - 52))"
      by (rule arg_cong)
    also have "\<dots> = 2 powr 52 * 2 powr of_int (e - 52)" by (rule powr_add)
    finally show ?thesis .
  qed
  have B: "(2::real) powr 52 = 2 ^ 52" by (simp add: powr_numeral)
  have "2 powr of_int e = 2 ^ 52 * u" by (simp only: u_def A B)
  with \<open>2 powr of_int e \<le> x\<close> have "2 ^ 52 \<le> x / u" using u by (simp add: pos_le_divide_eq)
  then have "(2::int) ^ 52 \<le> \<lfloor>x / u\<rfloor>" by (simp add: le_floor_iff)
  then have "(2::int) ^ 52 \<le> round_half_even (x / u)"
    using round_half_even_bounds [of "x / u"] by linarith
  then have "real_of_int (2 ^ 52) \<le> real_of_int (round_half_even (x / u))"
    by (simp only: of_int_le_iff)
  then have "2 ^ 52 * u \<le> real_of_int (round_half_even (x / u)) * u"
    using u by (intro mult_right_mono) simp_all
  moreover have "(2::real) ^ 1024 \<le> 2 ^ 52 * u"
  proof -
    have "(2::real) ^ 1024 = 2 powr 1024" by simp
    also have "\<dots> \<le> 2 powr of_int e" by (rule powr_mono) (use e in simp_all)
    also have "\<dots> = 2 ^ 52 * u" by fact
    finally show ?thesis .
  qed
  ultimately have "2 ^ 1024 \<le> \<bar>real_of_int (round_half_even (x / u)) * u\<bar>" by linarith
  then show ?thesis using x by (simp add: round_double_def b u_def Let_def)
qed

subsection \<open>Arithmetic\<close>

lemma int_to_double_small: "\<bar>n\<bar> < 2 ^ 53 \<Longrightarrow> int_to_double n = Returned (Fin (of_int n))"
  by (simp add: int_to_double_def round_double_int)

lemma fadd_commute: "fadd a b = fadd b a"
  by (cases a; cases b) (simp_all add: add.commute)

lemma fmul_commute: "fmul a b = fmul b a"
  by (cases a; cases b) (simp_all add: mult.commute)

lemma py_add_commute: "py_add a b = py_add b a"
proof (cases a; cases b)
  fix x y assume "a = PyInt x" "b = PyFloat y"
  then show ?thesis by (cases "int_to_double x") (simp_all add: float_op_def fadd_commute)
next
  fix x y assume "a = PyFloat x" "b = PyInt y"
  then show ?thesis by (cases "int_to_double y") (simp_all add: float_op_def fadd_commute)
qed (simp_all add: float_op_def fadd_commute add.commute)

lemma py_mul_commute: "py_mul a b = py_mul b a"
proof (cases a; cases b)
  fix x y assume "a = PyInt x" "b = PyFloat y"
  then show ?thesis by (cases "int_to_double x") (simp_all add: float_op_def fmul_commute)
next
  fix x y assume "a = PyFloat x" "b = PyInt y"
  then show ?thesis by (cases "int_to_double y") (simp_all add: float_op_def fmul_commute)
qed (simp_all add: float_op_def fmul_commute mult.commute)

lemma py_eq_refl: "r \<noteq> PyFloat NaN \<Longrightarrow> py_eq r r"
proof (cases r)
  case (PyInt n)
  then show ?thesis by simp
next
  case (PyFloat x)
  assume "r \<noteq> PyFloat NaN"
  with PyFloat show ?thesis by (cases x) simp_all
qed

lemma c_fmod_bound:
  assumes "y \<noteq> 0" shows "\<bar>c_fmod x y\<bar> < \<bar>y\<bar>"
proof -
  define q where "q = x / y"
  define t :: int where "t = (if 0 \<le> q then \<lfloor>q\<rfloor> else \<lceil>q\<rceil>)"
  have "\<bar>q - of_int t\<bar> < 1" unfolding t_def by (auto; linarith)
  moreover have "c_fmod x y = y * (q - of_int t)"
    using assms by (simp add: c_fmod_def q_def t_def algebra_simps)
  ultimately have "\<bar>c_fmod x y\<bar> = \<bar>y\<bar> * \<bar>q - of_int t\<bar>" "\<bar>q - of_int t\<bar> < 1"
    by (simp_all add: abs_mult)
  moreover have "0 < \<bar>y\<bar>" using assms by simp
  ultimately have "\<bar>c_fmod x y\<bar> < \<bar>y\<bar> * 1"
    by (simp only: mult_strict_left_mono)
  then show ?thesis by simp
qed

lemma frem_sign:
  assumes "y \<noteq> 0"
  shows "frem (Fin x) (Fin y) \<noteq> NaN \<and>
         (fsign (frem (Fin x) (Fin y)) = 0 \<or> fsign (frem (Fin x) (Fin y)) = fsign (Fin y))"
proof -
  define m where "m = c_fmod x y"
  have b: "\<bar>m\<bar> < \<bar>y\<bar>" unfolding m_def by (rule c_fmod_bound [OF assms])
  show ?thesis
  proof (cases "m \<noteq> 0 \<and> ((y < 0) \<noteq> (m < 0))")
    case False
    then have "frem (Fin x) (Fin y) = Fin m" by (auto simp: m_def Let_def)
    with False assms show ?thesis by auto
  next
    case True
    then have r: "frem (Fin x) (Fin y) = round_double (m + y)" by (auto simp: m_def Let_def)
    show ?thesis
    proof (cases "y < 0")
      case True
      with \<open>m \<noteq> 0 \<and> ((y < 0) \<noteq> (m < 0))\<close> b have "m + y < 0" by linarith
      from round_double_neg [OF this] have
        "round_double (m + y) \<noteq> NaN \<and>
         (fsign (round_double (m + y)) = 0 \<or> fsign (round_double (m + y)) = - 1)"
        by (auto split: if_splits)
      with r True show ?thesis by simp
    next
      case False
      with \<open>m \<noteq> 0 \<and> ((y < 0) \<noteq> (m < 0))\<close> b assms have "0 < m + y" by linarith
      from round_double_pos [OF this] have
        "round_double (m + y) \<noteq> NaN \<and>
         (fsign (round_double (m + y)) = 0 \<or> fsign (round_double (m + y)) = 1)"
        by (auto split: if_splits)
      with r False assms show ?thesis by simp
    qed
  qed
qed


lemma round_double_nonzero:
  assumes "1 \<le> \<bar>x\<bar>"
  shows "round_double x \<noteq> Fin 0"
proof -
  have x: "0 < \<bar>x\<bar>" "x \<noteq> 0" using assms by auto
  define e where "e = \<lfloor>log 2 \<bar>x\<bar>\<rfloor>"
  have "0 \<le> log 2 \<bar>x\<bar>" using assms by simp
  then have e: "0 \<le> e" by (simp add: e_def)
  then have b: "binade x = e" by (simp add: binade_def e_def)
  have le: "2 powr of_int e \<le> \<bar>x\<bar>"
    using floor_log_eq_powr_iff [of "\<bar>x\<bar>" 2 e] x(1) by (simp add: e_def)
  define u :: real where "u = 2 powr of_int (e - 52)"
  have u: "0 < u" by (simp add: u_def)
  have A: "(2::real) powr of_int e = 2 powr 52 * 2 powr of_int (e - 52)"
  proof -
    have "real_of_int e = 52 + real_of_int (e - 52)" by simp
    then have "(2::real) powr of_int e = 2 powr (52 + real_of_int (e - 52))"
      by (rule arg_cong)
    also have "\<dots> = 2 powr 52 * 2 powr of_int (e - 52)" by (rule powr_add)
    finally show ?thesis .
  qed
  have B: "(2::real) powr 52 = 2 ^ 52" by (simp add: powr_numeral)
  have "2 powr of_int e = 2 ^ 52 * u" by (simp only: u_def A B)
  with le have q: "2 ^ 52 \<le> \<bar>x\<bar> / u" using u by (simp add: pos_le_divide_eq)
  define k where "k = round_half_even (x / u)"
  have k: "k \<noteq> 0"
  proof (cases "0 < x")
    case True
    with q have "2 ^ 52 \<le> x / u" by simp
    then have "(2::int) ^ 52 \<le> \<lfloor>x / u\<rfloor>" by (simp add: le_floor_iff)
    then have "(2::int) ^ 52 \<le> k" using round_half_even_bounds [of "x / u"] unfolding k_def by linarith
    then show ?thesis by simp
  next
    case False
    with x(2) have "\<bar>x\<bar> = - x" by simp
    with q have "x / u \<le> - (2 ^ 52)" by simp
    then have "\<lfloor>x / u\<rfloor> \<le> - (2 ^ 52)" by (simp add: floor_le_iff)
    then have "k \<le> - (2 ^ 52) + 1" using round_half_even_bounds [of "x / u"] unfolding k_def by linarith
    then show ?thesis by simp
  qed
  then have "real_of_int k * u \<noteq> 0" using u by simp
  then show ?thesis using x(2) by (simp add: round_double_def b Let_def k_def u_def)
qed

lemma int_to_double_nonzero:
  assumes "n \<noteq> 0" shows "int_to_double n \<noteq> Returned (Fin 0)"
proof -
  from assms have "1 \<le> \<bar>n\<bar>" by linarith
  then have "real_of_int 1 \<le> real_of_int \<bar>n\<bar>" by (simp only: of_int_le_iff)
  then have "1 \<le> \<bar>real_of_int n\<bar>" by simp
  then have "round_double (of_int n) \<noteq> Fin 0" by (rule round_double_nonzero)
  then show ?thesis by (cases "round_double (of_int n)") (simp_all add: int_to_double_def)
qed

lemma int_to_double_finite: "int_to_double n \<noteq> Returned PInf \<and> int_to_double n \<noteq> Returned NInf \<and> int_to_double n \<noteq> Returned NaN"
  by (cases "round_double (of_int n)") (simp_all add: int_to_double_def)

lemma frem_value:
  assumes "y \<noteq> 0"
  shows "frem (Fin x) (Fin y) =
         (if x / y < 0 \<and> of_int \<lfloor>x / y\<rfloor> \<noteq> x / y then round_double (floor_remainder x y)
          else Fin (floor_remainder x y))"
proof -
  define q where "q = x / y"
  define t :: int where "t = (if 0 \<le> q then \<lfloor>q\<rfloor> else \<lceil>q\<rceil>)"
  define d where "d = q - of_int t"
  define m where "m = c_fmod x y"
  have xq: "x = y * q" using assms by (simp add: q_def)
  have m0: "m = x - y * of_int t" unfolding m_def c_fmod_def t_def q_def by simp
  have "x - y * of_int t = y * q - y * of_int t" using xq by simp
  then have m: "m = y * d" unfolding m0 d_def by (simp add: algebra_simps)
  have fr0: "floor_remainder x y = x - y * of_int \<lfloor>q\<rfloor>"
    unfolding floor_remainder_def q_def by simp
  have "x - y * of_int \<lfloor>q\<rfloor> = y * q - y * of_int \<lfloor>q\<rfloor>" using xq by simp
  then have fr: "floor_remainder x y = y * (q - of_int \<lfloor>q\<rfloor>)"
    unfolding fr0 by (simp add: algebra_simps)
  have goal: "?thesis \<longleftrightarrow> frem (Fin x) (Fin y) =
         (if q < 0 \<and> of_int \<lfloor>q\<rfloor> \<noteq> q then round_double (floor_remainder x y)
          else Fin (floor_remainder x y))"
    unfolding q_def by simp
  show ?thesis unfolding goal
  proof (cases "0 \<le> q")
    case True
    then have t: "t = \<lfloor>q\<rfloor>" by (simp add: t_def)
    have d: "0 \<le> d" unfolding d_def t by linarith
    have "\<not> (m \<noteq> 0 \<and> ((y < 0) \<noteq> (m < 0)))"
      using d assms by (auto simp: m mult_less_0_iff)
    then have "frem (Fin x) (Fin y) = Fin m" by (auto simp: m_def Let_def)
    moreover have "m = floor_remainder x y" by (simp add: m fr d_def t)
    ultimately show "frem (Fin x) (Fin y) =
         (if q < 0 \<and> of_int \<lfloor>q\<rfloor> \<noteq> q then round_double (floor_remainder x y)
          else Fin (floor_remainder x y))"
      using True by simp
  next
    case False
    then have t: "t = \<lceil>q\<rceil>" by (simp add: t_def)
    have d: "d \<le> 0" "- 1 < d" unfolding d_def t by linarith+
    show "frem (Fin x) (Fin y) =
         (if q < 0 \<and> of_int \<lfloor>q\<rfloor> \<noteq> q then round_double (floor_remainder x y)
          else Fin (floor_remainder x y))"
    proof (cases "d = 0")
      case True
      then have "m = 0" by (simp add: m)
      then have "frem (Fin x) (Fin y) = Fin m" by (auto simp: m_def Let_def)
      moreover have c: "of_int \<lceil>q\<rceil> = q" using True by (simp add: d_def t)
      then have e: "\<lfloor>q\<rfloor> = \<lceil>q\<rceil>" by (metis floor_of_int)
      then have "m = floor_remainder x y" by (simp add: m fr d_def t)
      moreover have "of_int \<lfloor>q\<rfloor> = q" using c e by simp
      ultimately show ?thesis by simp
    next
      case False
      with d have dn: "d < 0" by simp
      then have "m \<noteq> 0 \<and> ((y < 0) \<noteq> (m < 0))"
        using assms by (auto simp: m mult_less_0_iff)
      then have "frem (Fin x) (Fin y) = round_double (m + y)" by (auto simp: m_def Let_def)
      moreover have f: "\<lfloor>q\<rfloor> = \<lceil>q\<rceil> - 1" using dn unfolding d_def t by linarith
      then have fc: "real_of_int \<lceil>q\<rceil> = real_of_int \<lfloor>q\<rfloor> + 1" by simp
      have "m + y = floor_remainder x y" unfolding m fr d_def t fc by (simp add: algebra_simps)
      moreover have "of_int \<lfloor>q\<rfloor> \<noteq> q" using dn fc unfolding d_def t by linarith
      moreover have "q < 0" using \<open>\<not> 0 \<le> q\<close> by simp
      ultimately show ?thesis by simp
    qed
  qed
qed

lemma finite_mod:
  assumes "is_float a \<or> is_float b" and "\<not> py_eq b (PyInt 0)"
    and "num_to_double a = Returned (Fin x)" and "num_to_double b = Returned (Fin y)"
  shows "y \<noteq> 0 \<and> modulus a b = Returned (PyFloat (frem (Fin x) (Fin y)))"
proof -
  have y: "y \<noteq> 0"
  proof (cases b)
    case (PyInt n)
    with assms(2) have "n \<noteq> 0" by simp
    from int_to_double_nonzero [OF this] assms(4) PyInt show ?thesis by auto
  next
    case (PyFloat z)
    with assms(2,4) show ?thesis by auto
  qed
  have "py_mod a b = Returned (PyFloat (frem (Fin x) (Fin y)))"
    using assms(1,3,4) y by (cases a; cases b) (simp_all add: float_op_def)
  with y assms(2) show ?thesis by (simp add: modulus_def)
qed

lemma float_mod:
  assumes "is_float a \<or> is_float b" and "\<not> py_eq b (PyInt 0)"
    and "num_to_double a = Returned x" and "num_to_double b = Returned y" and "y \<noteq> Fin 0"
  shows "modulus a b = Returned (PyFloat (frem x y))"
proof -
  have "py_mod a b = Returned (PyFloat (frem x y))"
    using assms(1,3,4,5) by (cases a; cases b) (simp_all add: float_op_def)
  with assms(2) show ?thesis by (simp add: modulus_def)
qed

lemma not_zero_divisor:
  assumes "\<not> py_eq b (PyInt 0)" and "num_to_double b = Returned y"
  shows "y \<noteq> Fin 0"
proof (cases b)
  case (PyInt n)
  with assms(1) have "n \<noteq> 0" by simp
  from int_to_double_nonzero [OF this] assms(2) PyInt show ?thesis by auto
next
  case (PyFloat z)
  with assms show ?thesis by auto
qed

lemma same_result_iff:
  assumes "p = Returned r"
  shows "same_result p p \<longleftrightarrow> r \<noteq> PyFloat NaN"
proof (cases r)
  case (PyInt n)
  with assms show ?thesis by (simp add: same_result_def)
next
  case (PyFloat x)
  with assms show ?thesis by (cases x) (simp_all add: same_result_def)
qed

lemma int_to_double_big: "\<exists>r. int_to_double (10 ^ 308) = Returned (Fin r) \<and> 2 ^ 1023 \<le> r"
proof -
  have "\<exists>r. round_double (10 ^ 308) = Fin r \<and> 2 ^ 1023 \<le> r"
    by (rule round_double_top) simp_all
  then show ?thesis by (auto simp: int_to_double_def)
qed

lemma py_mul_overflow:
  assumes "n = 10 ^ 308"
  shows "py_mul (PyInt n) (PyFloat (Fin 10)) = Returned (PyFloat PInf)"
proof -
  from int_to_double_big obtain r where r: "int_to_double (10 ^ 308) = Returned (Fin r)" "2 ^ 1023 \<le> r"
    by blast
  have "(2::real) ^ 1024 = 2 ^ 1023 * 2" by simp
  also have "\<dots> \<le> r * 10" using r(2) by (intro mult_mono) simp_all
  finally have "round_double (r * 10) = PInf" by (rule round_double_overflow)
  with r(1) assms show ?thesis by (simp add: float_op_def)
qed

subsection \<open>Strings and handlers\<close>

lemma replace_from_char:
  "replace_from [c] new 0 s = concat (map (\<lambda>x. if x = c then new else [x]) s)"
  by (induction s) auto

lemma strip_spaces: "replace s '' '' [] = filter (\<lambda>x. x \<noteq> CHR '' '') s"
  by (induction s) (auto simp: replace_def)

lemma count_from_char: "count_from [c] 0 s = length (filter (\<lambda>x. x = c) s)"
  by (induction s) auto

lemma count_char: "count s [c] = length (filter (\<lambda>x. x = c) s)"
  by (simp add: count_def count_from_char)

lemma handlers_cases:
  "(\<exists>x. handlers r = Returned x) \<or> (\<exists>m. handlers r = Raised (Exc CalculatorError m))"
proof (cases r)
  case (Returned x)
  then show ?thesis by simp
next
  case (Raised e)
  then show ?thesis by (cases e) (simp add: calculator_error_def)
qed

lemma handlers_not_invalid_characters:
  "handlers r \<noteq> Raised (Exc CalculatorError ''Expression contains invalid characters'')"
proof (cases r)
  case (Returned x)
  then show ?thesis by simp
next
  case (Raised e)
  then show ?thesis by (cases e) (simp add: calculator_error_def)
qed

lemma inf_wrapped:
  assumes "ev s = Returned v" and "math_isinf v = Returned True"
  shows "handlers (try_body ev s)
           = Raised (Exc CalculatorError ''Error evaluating expression: Result is infinity'')"
  using assms by (simp add: try_body_def calculator_error_def)

lemma nan_wrapped:
  assumes "ev s = Returned v" and "math_isinf v = Returned False" and "math_isnan v = Returned True"
  shows "handlers (try_body ev s)
           = Raised (Exc CalculatorError ''Error evaluating expression: Invalid operation resulting in NaN'')"
  using assms by (simp add: try_body_def calculator_error_def)

subsection \<open>Concrete expressions\<close>

text \<open>
  Each expression is taken through the checks of \<open>evaluate_expression\<close> up to the
  \<open>try\<close> first, then through \<open>py_eval\<close>.
\<close>

lemmas string_defs = evaluate_expression_def strip_spaces allowed_chars_def isdigit_def count_char
  substitute_def replace_def Let_def

lemmas lex_defs = is_decimal_def is_lower_def is_name_char_def is_name_start_def py_keywords_def
  digit_value_def decimal_value_def int_literal_def float_literal_def unless_name_follows_def

lemmas eval_defs = py_eval_def lex_defs parse_def numeral_eq_Suc number_def math_functions_def
  call_math_def

lemmas guard_defs = try_body_def math_isinf_def math_isnan_def isinf_def isnan_def
  calculator_error_def

lemma checks_2_plus_3: "evaluate_expression ev ''2 + 3'' = handlers (try_body ev ''2+3'')"
  by (simp add: string_defs)
lemma checks_product: "evaluate_expression ev ''(2 + 3) * 4'' = handlers (try_body ev ''(2+3)*4'')"
  by (simp add: string_defs)
lemma checks_sqrt_16: "evaluate_expression ev ''sqrt(16)'' = handlers (try_body ev ''math.sqrt(16)'')"
  by (simp add: string_defs)
lemma substitute_sqrt_16: "substitute ''sqrt(16)'' = ''math.sqrt(16)''"
  by (simp add: string_defs)
lemma checks_s: "evaluate_expression ev ''s'' = handlers (try_body ev ''s'')"
  by (simp add: string_defs)
lemma checks_power: "evaluate_expression ev ''2**3'' = handlers (try_body ev ''2**3'')"
  by (simp add: string_defs)
lemma checks_caret: "evaluate_expression ev ''2^3'' = Raised (Exc CalculatorError ''Expression contains invalid characters'')"
  by (simp add: string_defs calculator_error_def)

lemma eval_2_plus_3: "py_eval H ''2+3'' = Returned (Num (PyInt 5))" by (simp add: eval_defs)
lemma eval_product: "py_eval H ''(2+3)*4'' = Returned (Num (PyInt 20))" by (simp add: eval_defs)
lemma eval_sqrt_16: "py_eval H ''math.sqrt(16)'' = Returned (Num (PyFloat (Fin 4)))"
  using round_double_int [of 4] by (simp add: eval_defs math_sqrt_def int_to_double_small sqrt16)
lemma eval_s: "py_eval H ''s'' = Raised (Exc NameError ''name 's' is not defined'')"
  by (simp add: eval_defs quoted_def)
lemma eval_power: "py_eval H ''2**3'' = Returned (Num (PyInt 8))" by (simp add: eval_defs)
lemma eval_power_right: "py_eval H ''2**3**2'' = Returned (Num (PyInt 512))" by (simp add: eval_defs)

lemma eval_overflow: "py_eval H ''10**308*10.0'' = Returned (Num (PyFloat PInf))"
  using round_double_int [of 10]
  by (simp add: eval_defs py_mul_overflow del: py_mul.simps)

lemma eval_nan: "py_eval H ''10**308*10.0-10**308*10.0'' = Returned (Num (PyFloat NaN))"
  using round_double_int [of 10]
  by (simp add: eval_defs py_mul_overflow float_op_def fsub_def del: py_mul.simps)

lemma checks_overflow: "evaluate_expression ev ''10**308*10.0'' = handlers (try_body ev ''10**308*10.0'')"
  by (simp add: string_defs)

lemma checks_nan: "evaluate_expression ev ''10**308*10.0-10**308*10.0''
    = handlers (try_body ev ''10**308*10.0-10**308*10.0'')"
  by (simp add: string_defs)

subsection \<open>The claims\<close>

text \<open>
  C3. Whatever \<open>eval\<close> does with the substituted string (return any object, raise any
  exception deriving from \<open>Exception\<close>), \<open>evaluate_expression\<close> on a string either
  returns a float or raises a \<open>CalculatorError\<close>: no other exception leaves it.
\<close>

theorem evaluate_expression_float_or_calculator_error:
  "(\<exists>x. evaluate_expression ev expression = Returned x) \<or>
   (\<exists>msg. evaluate_expression ev expression = Raised (Exc CalculatorError msg))"
  using handlers_cases [of "try_body ev (substitute (replace expression '' '' []))"]
  by (auto simp: evaluate_expression_def calculator_error_def Let_def)

text \<open>
  C6. An input that is not empty and whose characters, once the spaces are removed, all
  pass the character check, but with different numbers of opening and closing
  parentheses, fails with "Unbalanced parentheses", whatever \<open>eval\<close> is;
  \<open>(2 + 3\<close> is such an input.
\<close>

theorem unbalanced_parentheses:
  "(\<forall>ev expression.
      expression \<noteq> [] \<and>
      list_all (\<lambda>c. c \<in> allowed_chars \<or> isdigit c \<or> c \<in> set ''+-*/()'')
        (replace expression '' '' []) \<and>
      count (replace expression '' '' []) ''('' \<noteq> count (replace expression '' '' []) '')''
      \<longrightarrow> evaluate_expression ev expression
            = Raised (Exc CalculatorError ''Unbalanced parentheses'')) \<and>
   (\<forall>ev. evaluate_expression ev ''(2 + 3''
            = Raised (Exc CalculatorError ''Unbalanced parentheses''))"
  by (simp add: evaluate_expression_def calculator_error_def strip_spaces count_char
      allowed_chars_def isdigit_def)

theorem unbalanced_parentheses_witness:
  "''(2 + 3'' \<noteq> [] \<and>
   list_all (\<lambda>c. c \<in> allowed_chars \<or> isdigit c \<or> c \<in> set ''+-*/()'')
     (replace ''(2 + 3'' '' '' []) \<and>
   count (replace ''(2 + 3'' '' '' []) ''('' \<noteq> count (replace ''(2 + 3'' '' '' []) '')'' \<and>
   evaluate_expression (\<lambda>s. Returned (Num (PyInt 0))) ''(2 + 3''
     = Raised (Exc CalculatorError ''Unbalanced parentheses'')"
  using unbalanced_parentheses
  by (simp add: strip_spaces count_char allowed_chars_def isdigit_def)

text \<open>
  C10. Only the space character is removed: an input that contains a tab or a newline
  fails with "Expression contains invalid characters", whatever \<open>eval\<close> is.
\<close>

theorem tab_or_newline_is_invalid:
  assumes "CHR 0x09 \<in> set expression \<or> CHR 0x0A \<in> set expression"
  shows "evaluate_expression ev expression
           = Raised (Exc CalculatorError ''Expression contains invalid characters'')"
proof -
  from assms have ne: "expression \<noteq> []" by auto
  from assms obtain c where c: "c \<in> set expression" "c = CHR 0x09 \<or> c = CHR 0x0A" by auto
  then have "c \<in> set (replace expression '' '' [])" by (auto simp: strip_spaces)
  moreover have "\<not> (c \<in> allowed_chars \<or> isdigit c \<or> c \<in> set ''+-*/()'')"
    using c(2) by (auto simp: allowed_chars_def isdigit_def)
  ultimately have
    "\<not> list_all (\<lambda>c. c \<in> allowed_chars \<or> isdigit c \<or> c \<in> set ''+-*/()'')
         (replace expression '' '' [])"
    by (auto simp: list_all_iff)
  with ne show ?thesis by (simp add: evaluate_expression_def calculator_error_def)
qed

theorem tab_or_newline_is_invalid_witness:
  "(CHR 0x09 \<in> set [CHR ''2'', CHR 0x09, CHR ''+'', CHR '' '', CHR ''3''] \<or>
    CHR 0x0A \<in> set [CHR ''2'', CHR 0x09, CHR ''+'', CHR '' '', CHR ''3'']) \<and>
   evaluate_expression (\<lambda>s. Returned (Num (PyInt 0)))
       [CHR ''2'', CHR 0x09, CHR ''+'', CHR '' '', CHR ''3'']
     = Raised (Exc CalculatorError ''Expression contains invalid characters'')"
  using tab_or_newline_is_invalid
    [of "[CHR ''2'', CHR 0x09, CHR ''+'', CHR '' '', CHR ''3'']" "\<lambda>s. Returned (Num (PyInt 0))"]
  by simp

text \<open>
  C7. \<open>square_root\<close> of every number below zero (an int, a float, minus infinity) fails
  with "Cannot calculate square root of negative number"; \<open>power(5, 2)\<close> is the int 25
  on every host, \<open>square_root\<close> of it is the float 5.0, and that equals 5.
\<close>

theorem square_root_negative_and_round_trip:
  "(\<forall>n. py_lt n (PyInt 0) \<longrightarrow>
      square_root n = Raised (Exc CalculatorError ''Cannot calculate square root of negative number'')) \<and>
   (\<forall>H. power H (PyInt 5) (PyInt 2) = Returned (Num (PyInt 25))) \<and>
   square_root (PyInt 25) = Returned (Fin 5) \<and> py_eq (PyFloat (Fin 5)) (PyInt 5)"
  using round_double_int [of 5]
  by (simp add: square_root_def calculator_error_def power_def power_body_def math_isinf_def
      math_isnan_def int_to_double_small isinf_def isnan_def math_sqrt_def sqrt25)

theorem square_root_negative_and_round_trip_witness:
  "py_lt (PyFloat (Fin (- 1))) (PyInt 0) \<and>
   square_root (PyFloat (Fin (- 1)))
     = Raised (Exc CalculatorError ''Cannot calculate square root of negative number'')"
  using square_root_negative_and_round_trip by simp

text \<open>
  C8, as stated, fails. With a divisor that is not zero, \<open>modulus\<close> does not always
  return a remainder: an int too large for a double, next to a float, raises an
  OverflowError, and an infinite dividend gives NaN.
\<close>

theorem modulus_remainder_counterexample:
  "\<not> py_eq (PyFloat (Fin 3)) (PyInt 0) \<and>
   modulus (PyInt (2 ^ 1024)) (PyFloat (Fin 3))
     = Raised (Exc OverflowError ''int too large to convert to float'') \<and>
   modulus (PyFloat PInf) (PyFloat (Fin 3)) = Returned (PyFloat NaN)"
proof -
  have "round_double (2 ^ 1024) = PInf" by (rule round_double_overflow) simp
  then have "int_to_double (2 ^ 1024) = Raised (Exc OverflowError ''int too large to convert to float'')"
    by (simp add: int_to_double_def)
  then show ?thesis by (simp add: modulus_def float_op_def)
qed

text \<open>
  C8, amended. \<open>modulus(a, b)\<close> fails with "Modulus by zero is not allowed" when
  \<open>b == 0\<close>. Otherwise: two ints give the int \<open>a - b * (a // b)\<close>, which lies between zero
  and \<open>b\<close>. When an operand is a float, both are converted to doubles, and a conversion
  that fails (an int too large for a double) raises its OverflowError; finite \<open>x\<close> and
  \<open>y\<close> give \<open>x - y * floor(x / y)\<close>, rounded to the nearest double when \<open>x / y\<close> is
  negative and not an integer and exact otherwise, which is zero or has the sign of
  \<open>y\<close>; a finite \<open>x\<close> and an infinite divisor give \<open>x\<close>, or the
  divisor when \<open>x\<close> is not zero and has the other sign; an infinite or NaN dividend, or a
  NaN divisor, gives NaN. \<open>modulus(-10, 3)\<close> is 2 and \<open>modulus(10, -3)\<close> is -2.
\<close>

theorem modulus_by_operand_kind:
  "(\<forall>a b. py_eq b (PyInt 0) \<longrightarrow>
      modulus a b = Raised (Exc CalculatorError ''Modulus by zero is not allowed'')) \<and>
   (\<forall>a b. b \<noteq> 0 \<longrightarrow>
      modulus (PyInt a) (PyInt b) = Returned (PyInt (a - b * (a div b))) \<and>
      (0 < b \<longrightarrow> 0 \<le> a - b * (a div b) \<and> a - b * (a div b) < b) \<and>
      (b < 0 \<longrightarrow> b < a - b * (a div b) \<and> a - b * (a div b) \<le> 0)) \<and>
   (\<forall>a b x y.
      (is_float a \<or> is_float b) \<and> \<not> py_eq b (PyInt 0) \<and>
      num_to_double a = Returned (Fin x) \<and> num_to_double b = Returned (Fin y) \<longrightarrow>
      (\<exists>r. modulus a b = Returned (PyFloat r) \<and>
           r = (if x / y < 0 \<and> of_int \<lfloor>x / y\<rfloor> \<noteq> x / y
                then round_double (floor_remainder x y) else Fin (floor_remainder x y)) \<and>
           r \<noteq> NaN \<and> (fsign r = 0 \<or> fsign r = fsign (Fin y)))) \<and>
   (\<forall>a b x.
      (is_float a \<or> is_float b) \<and> num_to_double a = Returned (Fin x) \<longrightarrow>
      (num_to_double b = Returned PInf \<longrightarrow>
         modulus a b = Returned (PyFloat (if x < 0 then PInf else Fin x))) \<and>
      (num_to_double b = Returned NInf \<longrightarrow>
         modulus a b = Returned (PyFloat (if 0 < x then NInf else Fin x)))) \<and>
   (\<forall>a b x y.
      (is_float a \<or> is_float b) \<and> \<not> py_eq b (PyInt 0) \<and>
      num_to_double a = Returned x \<and> num_to_double b = Returned y \<and>
      (x = PInf \<or> x = NInf \<or> x = NaN \<or> y = NaN) \<longrightarrow>
      modulus a b = Returned (PyFloat NaN)) \<and>
   (\<forall>a b e.
      (is_float a \<or> is_float b) \<and> \<not> py_eq b (PyInt 0) \<and>
      (num_to_double a = Raised e \<or>
       (\<exists>x. num_to_double a = Returned x) \<and> num_to_double b = Raised e) \<longrightarrow>
      modulus a b = Raised e) \<and>
   modulus (PyInt (- 10)) (PyInt 3) = Returned (PyInt 2) \<and>
   modulus (PyInt 10) (PyInt (- 3)) = Returned (PyInt (- 2))"
proof -
  have c1: "\<forall>a b. py_eq b (PyInt 0) \<longrightarrow>
      modulus a b = Raised (Exc CalculatorError ''Modulus by zero is not allowed'')"
    by (simp add: modulus_def calculator_error_def)
  have c2: "\<forall>a b. b \<noteq> 0 \<longrightarrow>
      modulus (PyInt a) (PyInt b) = Returned (PyInt (a - b * (a div b))) \<and>
      (0 < b \<longrightarrow> 0 \<le> a - b * (a div b) \<and> a - b * (a div b) < b) \<and>
      (b < 0 \<longrightarrow> b < a - b * (a div b) \<and> a - b * (a div b) \<le> 0)"
    by (simp add: modulus_def minus_mult_div_eq_mod)
  have c3: "\<forall>a b x y.
      (is_float a \<or> is_float b) \<and> \<not> py_eq b (PyInt 0) \<and>
      num_to_double a = Returned (Fin x) \<and> num_to_double b = Returned (Fin y) \<longrightarrow>
      (\<exists>r. modulus a b = Returned (PyFloat r) \<and>
           r = (if x / y < 0 \<and> of_int \<lfloor>x / y\<rfloor> \<noteq> x / y
                then round_double (floor_remainder x y) else Fin (floor_remainder x y)) \<and>
           r \<noteq> NaN \<and> (fsign r = 0 \<or> fsign r = fsign (Fin y)))"
  proof (intro allI impI)
    fix a b x y
    assume h: "(is_float a \<or> is_float b) \<and> \<not> py_eq b (PyInt 0) \<and>
      num_to_double a = Returned (Fin x) \<and> num_to_double b = Returned (Fin y)"
    then have m: "y \<noteq> 0" "modulus a b = Returned (PyFloat (frem (Fin x) (Fin y)))"
      using finite_mod [of a b x y] by simp_all
    from frem_value [OF m(1), of x] frem_sign [OF m(1), of x] m(2)
    show "\<exists>r. modulus a b = Returned (PyFloat r) \<and>
           r = (if x / y < 0 \<and> of_int \<lfloor>x / y\<rfloor> \<noteq> x / y
                then round_double (floor_remainder x y) else Fin (floor_remainder x y)) \<and>
           r \<noteq> NaN \<and> (fsign r = 0 \<or> fsign r = fsign (Fin y))"
      by blast
  qed
  have c4: "\<forall>a b x.
      (is_float a \<or> is_float b) \<and> num_to_double a = Returned (Fin x) \<longrightarrow>
      (num_to_double b = Returned PInf \<longrightarrow>
         modulus a b = Returned (PyFloat (if x < 0 then PInf else Fin x))) \<and>
      (num_to_double b = Returned NInf \<longrightarrow>
         modulus a b = Returned (PyFloat (if 0 < x then NInf else Fin x)))"
  proof (intro allI impI)
    fix a b x
    assume h: "(is_float a \<or> is_float b) \<and> num_to_double a = Returned (Fin x)"
    have p: "modulus a b = Returned (PyFloat (if x < 0 then PInf else Fin x))"
      if i: "num_to_double b = Returned PInf"
    proof -
      from i have "\<not> py_eq b (PyInt 0)" using int_to_double_finite by (cases b) auto
      with h i have "modulus a b = Returned (PyFloat (frem (Fin x) PInf))"
        using float_mod [of a b "Fin x" PInf] by simp
      then show ?thesis by auto
    qed
    have n: "modulus a b = Returned (PyFloat (if 0 < x then NInf else Fin x))"
      if i: "num_to_double b = Returned NInf"
    proof -
      from i have "\<not> py_eq b (PyInt 0)" using int_to_double_finite by (cases b) auto
      with h i have "modulus a b = Returned (PyFloat (frem (Fin x) NInf))"
        using float_mod [of a b "Fin x" NInf] by simp
      then show ?thesis by auto
    qed
    from p n show "(num_to_double b = Returned PInf \<longrightarrow>
         modulus a b = Returned (PyFloat (if x < 0 then PInf else Fin x))) \<and>
      (num_to_double b = Returned NInf \<longrightarrow>
         modulus a b = Returned (PyFloat (if 0 < x then NInf else Fin x)))"
      by blast
  qed
  have c5: "\<forall>a b x y.
      (is_float a \<or> is_float b) \<and> \<not> py_eq b (PyInt 0) \<and>
      num_to_double a = Returned x \<and> num_to_double b = Returned y \<and>
      (x = PInf \<or> x = NInf \<or> x = NaN \<or> y = NaN) \<longrightarrow>
      modulus a b = Returned (PyFloat NaN)"
  proof (intro allI impI)
    fix a b x y
    assume h: "(is_float a \<or> is_float b) \<and> \<not> py_eq b (PyInt 0) \<and>
      num_to_double a = Returned x \<and> num_to_double b = Returned y \<and>
      (x = PInf \<or> x = NInf \<or> x = NaN \<or> y = NaN)"
    then have "y \<noteq> Fin 0" using not_zero_divisor [of b y] by simp
    with h have "modulus a b = Returned (PyFloat (frem x y))"
      using float_mod [of a b x y] by simp
    moreover have "frem x y = NaN" using h by (cases x; cases y) auto
    ultimately show "modulus a b = Returned (PyFloat NaN)" by simp
  qed
  have c6: "\<forall>a b e.
      (is_float a \<or> is_float b) \<and> \<not> py_eq b (PyInt 0) \<and>
      (num_to_double a = Raised e \<or>
       (\<exists>x. num_to_double a = Returned x) \<and> num_to_double b = Raised e) \<longrightarrow>
      modulus a b = Raised e"
  proof (intro allI impI)
    fix a b e
    assume h: "(is_float a \<or> is_float b) \<and> \<not> py_eq b (PyInt 0) \<and>
      (num_to_double a = Raised e \<or>
       (\<exists>x. num_to_double a = Returned x) \<and> num_to_double b = Raised e)"
    then have "py_mod a b = Raised e"
      by (cases a; cases b) (auto simp: float_op_def)
    with h show "modulus a b = Raised e" by (simp add: modulus_def)
  qed
  have c7: "modulus (PyInt (- 10)) (PyInt 3) = Returned (PyInt 2)" by (simp add: modulus_def)
  have c8: "modulus (PyInt 10) (PyInt (- 3)) = Returned (PyInt (- 2))" by (simp add: modulus_def)
  show ?thesis by (intro conjI c1 c2 c3 c4 c5 c6 c7 c8)
qed

theorem modulus_by_operand_kind_witness:
  "py_eq (PyFloat (Fin 0)) (PyInt 0) \<and>
   modulus (PyInt 5) (PyFloat (Fin 0))
     = Raised (Exc CalculatorError ''Modulus by zero is not allowed'') \<and>
   (- 3 :: int) \<noteq> 0 \<and> (- 3 :: int) < 0 \<and>
   modulus (PyInt 10) (PyInt (- 3)) = Returned (PyInt (10 - (- 3) * (10 div (- 3)))) \<and>
   (- 3 :: int) < 10 - (- 3) * (10 div (- 3)) \<and> (10 :: int) - (- 3) * (10 div (- 3)) \<le> 0 \<and>
   (is_float (PyInt (- 10)) \<or> is_float (PyFloat (Fin 3))) \<and>
   \<not> py_eq (PyFloat (Fin 3)) (PyInt 0) \<and>
   num_to_double (PyInt (- 10)) = Returned (Fin (- 10)) \<and>
   num_to_double (PyFloat (Fin 3)) = Returned (Fin 3) \<and>
   (\<exists>r. modulus (PyInt (- 10)) (PyFloat (Fin 3)) = Returned (PyFloat r) \<and>
        r = (if (- 10 :: real) / 3 < 0 \<and> of_int \<lfloor>(- 10 :: real) / 3\<rfloor> \<noteq> (- 10 :: real) / 3
             then round_double (floor_remainder (- 10) 3) else Fin (floor_remainder (- 10) 3)) \<and>
        r \<noteq> NaN \<and> (fsign r = 0 \<or> fsign r = fsign (Fin 3))) \<and>
   num_to_double (PyFloat PInf) = Returned PInf \<and>
   modulus (PyFloat (Fin (- 1))) (PyFloat PInf)
     = Returned (PyFloat (if (- 1 :: real) < 0 then PInf else Fin (- 1))) \<and>
   modulus (PyFloat PInf) (PyFloat (Fin 3)) = Returned (PyFloat NaN) \<and>
   num_to_double (PyInt (2 ^ 1024))
     = Raised (Exc OverflowError ''int too large to convert to float'') \<and>
   modulus (PyInt (2 ^ 1024)) (PyFloat (Fin 3))
     = Raised (Exc OverflowError ''int too large to convert to float'')"
proof -
  note t = modulus_by_operand_kind
  have big: "num_to_double (PyInt (2 ^ 1024))
     = Raised (Exc OverflowError ''int too large to convert to float'')"
  proof -
    have "round_double (2 ^ 1024) = PInf" by (rule round_double_overflow) simp
    then show ?thesis by (simp add: int_to_double_def)
  qed
  have small: "num_to_double (PyInt (- 10)) = Returned (Fin (- 10))"
    using int_to_double_small [of "- 10"] by simp
  from t have c1: "\<forall>a b. py_eq b (PyInt 0) \<longrightarrow>
      modulus a b = Raised (Exc CalculatorError ''Modulus by zero is not allowed'')"
    by (rule conjunct1)
  from t have c2: "\<forall>a b. b \<noteq> 0 \<longrightarrow>
      modulus (PyInt a) (PyInt b) = Returned (PyInt (a - b * (a div b))) \<and>
      (0 < b \<longrightarrow> 0 \<le> a - b * (a div b) \<and> a - b * (a div b) < b) \<and>
      (b < 0 \<longrightarrow> b < a - b * (a div b) \<and> a - b * (a div b) \<le> 0)"
    by (elim conjE)
  from t have c3: "\<forall>a b x y.
      (is_float a \<or> is_float b) \<and> \<not> py_eq b (PyInt 0) \<and>
      num_to_double a = Returned (Fin x) \<and> num_to_double b = Returned (Fin y) \<longrightarrow>
      (\<exists>r. modulus a b = Returned (PyFloat r) \<and>
           r = (if x / y < 0 \<and> of_int \<lfloor>x / y\<rfloor> \<noteq> x / y
                then round_double (floor_remainder x y) else Fin (floor_remainder x y)) \<and>
           r \<noteq> NaN \<and> (fsign r = 0 \<or> fsign r = fsign (Fin y)))"
    by (elim conjE)
  from t have c4: "\<forall>a b x.
      (is_float a \<or> is_float b) \<and> num_to_double a = Returned (Fin x) \<longrightarrow>
      (num_to_double b = Returned PInf \<longrightarrow>
         modulus a b = Returned (PyFloat (if x < 0 then PInf else Fin x))) \<and>
      (num_to_double b = Returned NInf \<longrightarrow>
         modulus a b = Returned (PyFloat (if 0 < x then NInf else Fin x)))"
    by (elim conjE)
  from t have c5: "\<forall>a b x y.
      (is_float a \<or> is_float b) \<and> \<not> py_eq b (PyInt 0) \<and>
      num_to_double a = Returned x \<and> num_to_double b = Returned y \<and>
      (x = PInf \<or> x = NInf \<or> x = NaN \<or> y = NaN) \<longrightarrow>
      modulus a b = Returned (PyFloat NaN)"
    by (elim conjE)
  from t have c6: "\<forall>a b e.
      (is_float a \<or> is_float b) \<and> \<not> py_eq b (PyInt 0) \<and>
      (num_to_double a = Raised e \<or>
       (\<exists>x. num_to_double a = Returned x) \<and> num_to_double b = Raised e) \<longrightarrow>
      modulus a b = Raised e"
    by (elim conjE)
  have w1: "modulus (PyInt 5) (PyFloat (Fin 0))
     = Raised (Exc CalculatorError ''Modulus by zero is not allowed'')"
    using c1 by simp
  have w2: "modulus (PyInt 10) (PyInt (- 3)) = Returned (PyInt (10 - (- 3) * (10 div (- 3)))) \<and>
     (- 3 :: int) < 10 - (- 3) * (10 div (- 3)) \<and> (10 :: int) - (- 3) * (10 div (- 3)) \<le> 0"
    using c2 [rule_format, of "- 3" 10] by simp
  have w3: "\<exists>r. modulus (PyInt (- 10)) (PyFloat (Fin 3)) = Returned (PyFloat r) \<and>
        r = (if (- 10 :: real) / 3 < 0 \<and> of_int \<lfloor>(- 10 :: real) / 3\<rfloor> \<noteq> (- 10 :: real) / 3
             then round_double (floor_remainder (- 10) 3) else Fin (floor_remainder (- 10) 3)) \<and>
        r \<noteq> NaN \<and> (fsign r = 0 \<or> fsign r = fsign (Fin 3))"
    using c3 [rule_format, of "PyInt (- 10)" "PyFloat (Fin 3)" "- 10" 3] small by simp
  have w4: "modulus (PyFloat (Fin (- 1))) (PyFloat PInf)
     = Returned (PyFloat (if (- 1 :: real) < 0 then PInf else Fin (- 1)))"
    using c4 [rule_format, of "PyFloat (Fin (- 1))" "PyFloat PInf" "- 1"] by simp
  have w5: "modulus (PyFloat PInf) (PyFloat (Fin 3)) = Returned (PyFloat NaN)"
    using c5 [rule_format, of "PyFloat PInf" "PyFloat (Fin 3)" PInf "Fin 3"] by simp
  have w6: "modulus (PyInt (2 ^ 1024)) (PyFloat (Fin 3))
     = Raised (Exc OverflowError ''int too large to convert to float'')"
    using c6 [rule_format, of "PyInt (2 ^ 1024)" "PyFloat (Fin 3)"
        "Exc OverflowError ''int too large to convert to float''"] big by simp
  have h: "py_eq (PyFloat (Fin 0)) (PyInt 0)" "(- 3 :: int) \<noteq> 0" "(- 3 :: int) < 0"
    "is_float (PyInt (- 10)) \<or> is_float (PyFloat (Fin 3))"
    "\<not> py_eq (PyFloat (Fin 3)) (PyInt 0)"
    "num_to_double (PyFloat (Fin 3)) = Returned (Fin 3)"
    "num_to_double (PyFloat PInf) = Returned PInf"
    by simp_all
  from h w1 w2 w3 w4 w5 w6 small big show ?thesis by (intro conjI) (elim conjE, assumption)+
qed

text \<open>
  C9, as stated, fails: the sum of plus infinity and minus infinity is NaN in either
  order, and NaN is not equal to itself.
\<close>

theorem add_commutes_counterexample:
  "\<not> same_result (add (PyFloat PInf) (PyFloat NInf)) (add (PyFloat NInf) (PyFloat PInf))"
  by (simp add: same_result_def add_def float_op_def)

text \<open>
  C9, amended. For all numbers \<open>a\<close> and \<open>b\<close>, \<open>add(a, b)\<close> and \<open>add(b, a)\<close> have the
  same outcome (the same value, or the same exception), and so have \<open>multiply(a, b)\<close>
  and \<open>multiply(b, a)\<close>. Whenever the call returns, the two results are equal under
  \<open>==\<close> if and only if the value is not NaN. The value is NaN for \<open>inf + -inf\<close>, for
  \<open>inf * 0\<close>, and for NaN added to or multiplied by any float.
\<close>

theorem add_multiply_commute:
  "add a b = add b a \<and> multiply a b = multiply b a \<and>
   (\<forall>r. add a b = Returned r \<longrightarrow>
      (same_result (add a b) (add b a) \<longleftrightarrow> r \<noteq> PyFloat NaN)) \<and>
   (\<forall>r. multiply a b = Returned r \<longrightarrow>
      (same_result (multiply a b) (multiply b a) \<longleftrightarrow> r \<noteq> PyFloat NaN)) \<and>
   add (PyFloat PInf) (PyFloat NInf) = Returned (PyFloat NaN) \<and>
   multiply (PyFloat PInf) (PyInt 0) = Returned (PyFloat NaN) \<and>
   (\<forall>y. add (PyFloat NaN) (PyFloat y) = Returned (PyFloat NaN)) \<and>
   (\<forall>y. multiply (PyFloat NaN) (PyFloat y) = Returned (PyFloat NaN))"
proof -
  have a: "add a b = add b a" by (simp add: add_def py_add_commute [of b a])
  have m: "multiply a b = multiply b a" by (simp add: multiply_def py_mul_commute [of b a])
  have c3: "\<forall>r. add a b = Returned r \<longrightarrow>
      (same_result (add a b) (add b a) \<longleftrightarrow> r \<noteq> PyFloat NaN)"
    using same_result_iff [of "add a b"] by (simp add: a [symmetric])
  have c4: "\<forall>r. multiply a b = Returned r \<longrightarrow>
      (same_result (multiply a b) (multiply b a) \<longleftrightarrow> r \<noteq> PyFloat NaN)"
    using same_result_iff [of "multiply a b"] by (simp add: m [symmetric])
  have c5: "add (PyFloat PInf) (PyFloat NInf) = Returned (PyFloat NaN)"
    by (simp add: add_def float_op_def)
  have z: "int_to_double 0 = Returned (Fin 0)" using int_to_double_small [of 0] by simp
  have c6: "multiply (PyFloat PInf) (PyInt 0) = Returned (PyFloat NaN)"
    by (simp add: multiply_def float_op_def z signed_inf_def)
  have c7: "\<forall>y. add (PyFloat NaN) (PyFloat y) = Returned (PyFloat NaN)"
    by (simp add: add_def float_op_def)
  have c8: "\<forall>y. multiply (PyFloat NaN) (PyFloat y) = Returned (PyFloat NaN)"
    by (simp add: multiply_def float_op_def)
  show ?thesis by (intro conjI a m c3 c4 c5 c6 c7 c8)
qed

theorem add_multiply_commute_witness:
  "add (PyFloat (Fin 2)) (PyInt 3) = Returned (PyFloat (Fin 5)) \<and>
   PyFloat (Fin 5) \<noteq> PyFloat NaN \<and>
   same_result (add (PyFloat (Fin 2)) (PyInt 3)) (add (PyInt 3) (PyFloat (Fin 2))) \<and>
   multiply (PyFloat (Fin 2)) (PyInt 3) = Returned (PyFloat (Fin 6)) \<and>
   PyFloat (Fin 6) \<noteq> PyFloat NaN \<and>
   same_result (multiply (PyFloat (Fin 2)) (PyInt 3)) (multiply (PyInt 3) (PyFloat (Fin 2))) \<and>
   add (PyFloat PInf) (PyFloat NInf) = Returned (PyFloat NaN) \<and>
   \<not> same_result (add (PyFloat PInf) (PyFloat NInf)) (add (PyFloat NInf) (PyFloat PInf)) \<and>
   multiply (PyFloat PInf) (PyInt 0) = Returned (PyFloat NaN) \<and>
   \<not> same_result (multiply (PyFloat PInf) (PyInt 0)) (multiply (PyInt 0) (PyFloat PInf))"
proof -
  have a: "add (PyFloat (Fin 2)) (PyInt 3) = Returned (PyFloat (Fin 5))"
    using round_double_int [of 5] by (simp add: add_def float_op_def int_to_double_small)
  have b: "multiply (PyFloat (Fin 2)) (PyInt 3) = Returned (PyFloat (Fin 6))"
    using round_double_int [of 6] by (simp add: multiply_def float_op_def int_to_double_small)
  note t1 = add_multiply_commute [of "PyFloat (Fin 2)" "PyInt 3"]
  note t2 = add_multiply_commute [of "PyFloat PInf" "PyFloat NInf"]
  note t3 = add_multiply_commute [of "PyFloat PInf" "PyInt 0"]
  from t1 have i1: "\<forall>r. add (PyFloat (Fin 2)) (PyInt 3) = Returned r \<longrightarrow>
      (same_result (add (PyFloat (Fin 2)) (PyInt 3)) (add (PyInt 3) (PyFloat (Fin 2)))
         \<longleftrightarrow> r \<noteq> PyFloat NaN)"
    by (elim conjE)
  from t1 have i2: "\<forall>r. multiply (PyFloat (Fin 2)) (PyInt 3) = Returned r \<longrightarrow>
      (same_result (multiply (PyFloat (Fin 2)) (PyInt 3)) (multiply (PyInt 3) (PyFloat (Fin 2)))
         \<longleftrightarrow> r \<noteq> PyFloat NaN)"
    by (elim conjE)
  from t2 have i3: "\<forall>r. add (PyFloat PInf) (PyFloat NInf) = Returned r \<longrightarrow>
      (same_result (add (PyFloat PInf) (PyFloat NInf)) (add (PyFloat NInf) (PyFloat PInf))
         \<longleftrightarrow> r \<noteq> PyFloat NaN)"
    by (elim conjE)
  from t3 have i4: "\<forall>r. multiply (PyFloat PInf) (PyInt 0) = Returned r \<longrightarrow>
      (same_result (multiply (PyFloat PInf) (PyInt 0)) (multiply (PyInt 0) (PyFloat PInf))
         \<longleftrightarrow> r \<noteq> PyFloat NaN)"
    by (elim conjE)
  from t2 have n1: "add (PyFloat PInf) (PyFloat NInf) = Returned (PyFloat NaN)"
    by (elim conjE)
  from t3 have n2: "multiply (PyFloat PInf) (PyInt 0) = Returned (PyFloat NaN)"
    by (elim conjE)
  have w1: "same_result (add (PyFloat (Fin 2)) (PyInt 3)) (add (PyInt 3) (PyFloat (Fin 2)))"
    using i1 [rule_format, OF a] by simp
  have w2: "same_result (multiply (PyFloat (Fin 2)) (PyInt 3)) (multiply (PyInt 3) (PyFloat (Fin 2)))"
    using i2 [rule_format, OF b] by simp
  have w3: "\<not> same_result (add (PyFloat PInf) (PyFloat NInf)) (add (PyFloat NInf) (PyFloat PInf))"
    using i3 [rule_format, OF n1] by simp
  have w4: "\<not> same_result (multiply (PyFloat PInf) (PyInt 0)) (multiply (PyInt 0) (PyFloat PInf))"
    using i4 [rule_format, OF n2] by simp
  have d: "PyFloat (Fin 5) \<noteq> PyFloat NaN" "PyFloat (Fin 6) \<noteq> PyFloat NaN" by simp_all
  show ?thesis by (intro conjI a b d w1 w2 w3 w4 n1 n2)
qed

text \<open>
  C1 does not hold of the code. Both \<open>raise CalculatorError\<close> statements of the guard
  stand inside the \<open>try\<close>, whose last handler catches every \<open>Exception\<close>: an
  infinite result fails with "Error evaluating expression: Result is infinity" and a NaN
  result with "Error evaluating expression: Invalid operation resulting in NaN", for
  every \<open>eval\<close>. \<open>10**308*10.0\<close> evaluates to infinity and
  \<open>10**308*10.0-10**308*10.0\<close> to NaN.
\<close>

theorem infinity_and_nan_messages_are_wrapped:
  "(\<forall>ev expression v.
      expression \<noteq> [] \<and>
      list_all (\<lambda>c. c \<in> allowed_chars \<or> isdigit c \<or> c \<in> set ''+-*/()'')
        (replace expression '' '' []) \<and>
      count (replace expression '' '' []) ''('' = count (replace expression '' '' []) '')'' \<and>
      ev (substitute (replace expression '' '' [])) = Returned v \<and>
      math_isinf v = Returned True
      \<longrightarrow> evaluate_expression ev expression
            = Raised (Exc CalculatorError ''Error evaluating expression: Result is infinity'')) \<and>
   (\<forall>ev expression v.
      expression \<noteq> [] \<and>
      list_all (\<lambda>c. c \<in> allowed_chars \<or> isdigit c \<or> c \<in> set ''+-*/()'')
        (replace expression '' '' []) \<and>
      count (replace expression '' '' []) ''('' = count (replace expression '' '' []) '')'' \<and>
      ev (substitute (replace expression '' '' [])) = Returned v \<and>
      math_isinf v = Returned False \<and> math_isnan v = Returned True
      \<longrightarrow> evaluate_expression ev expression
            = Raised (Exc CalculatorError
                ''Error evaluating expression: Invalid operation resulting in NaN'')) \<and>
   (\<forall>H. evaluate_expression (py_eval H) ''10**308*10.0''
      = Raised (Exc CalculatorError ''Error evaluating expression: Result is infinity'')) \<and>
   (\<forall>H. evaluate_expression (py_eval H) ''10**308*10.0-10**308*10.0''
      = Raised (Exc CalculatorError
          ''Error evaluating expression: Invalid operation resulting in NaN''))"
proof (intro conjI allI impI)
  fix ev expression v
  assume "expression \<noteq> [] \<and>
      list_all (\<lambda>c. c \<in> allowed_chars \<or> isdigit c \<or> c \<in> set ''+-*/()'')
        (replace expression '' '' []) \<and>
      count (replace expression '' '' []) ''('' = count (replace expression '' '' []) '')'' \<and>
      ev (substitute (replace expression '' '' [])) = Returned v \<and>
      math_isinf v = Returned True"
  then show "evaluate_expression ev expression
            = Raised (Exc CalculatorError ''Error evaluating expression: Result is infinity'')"
    using inf_wrapped [of ev "substitute (replace expression '' '' [])" v]
    by (simp add: evaluate_expression_def)
next
  fix ev expression v
  assume "expression \<noteq> [] \<and>
      list_all (\<lambda>c. c \<in> allowed_chars \<or> isdigit c \<or> c \<in> set ''+-*/()'')
        (replace expression '' '' []) \<and>
      count (replace expression '' '' []) ''('' = count (replace expression '' '' []) '')'' \<and>
      ev (substitute (replace expression '' '' [])) = Returned v \<and>
      math_isinf v = Returned False \<and> math_isnan v = Returned True"
  then show "evaluate_expression ev expression
            = Raised (Exc CalculatorError
                ''Error evaluating expression: Invalid operation resulting in NaN'')"
    using nan_wrapped [of ev "substitute (replace expression '' '' [])" v]
    by (simp add: evaluate_expression_def)
next
  fix H
  show "evaluate_expression (py_eval H) ''10**308*10.0''
      = Raised (Exc CalculatorError ''Error evaluating expression: Result is infinity'')"
    using inf_wrapped [of "py_eval H" "''10**308*10.0''" "Num (PyFloat PInf)"] eval_overflow [of H]
    by (simp add: checks_overflow math_isinf_def isinf_def)
next
  fix H
  show "evaluate_expression (py_eval H) ''10**308*10.0-10**308*10.0''
      = Raised (Exc CalculatorError
          ''Error evaluating expression: Invalid operation resulting in NaN'')"
    using nan_wrapped [of "py_eval H" "''10**308*10.0-10**308*10.0''" "Num (PyFloat NaN)"]
      eval_nan [of H]
    by (simp add: checks_nan math_isinf_def isinf_def math_isnan_def isnan_def)
qed

theorem infinity_and_nan_messages_are_wrapped_witness:
  "''10**308*10.0'' \<noteq> [] \<and>
   list_all (\<lambda>c. c \<in> allowed_chars \<or> isdigit c \<or> c \<in> set ''+-*/()'')
     (replace ''10**308*10.0'' '' '' []) \<and>
   count (replace ''10**308*10.0'' '' '' []) ''('' = count (replace ''10**308*10.0'' '' '' []) '')'' \<and>
   py_eval some_host (substitute (replace ''10**308*10.0'' '' '' [])) = Returned (Num (PyFloat PInf)) \<and>
   math_isinf (Num (PyFloat PInf)) = Returned True \<and>
   evaluate_expression (py_eval some_host) ''10**308*10.0''
     = Raised (Exc CalculatorError ''Error evaluating expression: Result is infinity'')"
proof -
  have r: "replace ''10**308*10.0'' '' '' [] = ''10**308*10.0''" by (simp add: strip_spaces)
  have s: "substitute ''10**308*10.0'' = ''10**308*10.0''" by (simp add: string_defs)
  have a: "list_all (\<lambda>c. c \<in> allowed_chars \<or> isdigit c \<or> c \<in> set ''+-*/()'') ''10**308*10.0''"
    by (simp add: allowed_chars_def isdigit_def)
  have c: "count ''10**308*10.0'' ''('' = count ''10**308*10.0'' '')''" by (simp add: count_char)
  have i: "math_isinf (Num (PyFloat PInf)) = Returned True"
    by (simp add: math_isinf_def isinf_def)
  have e: "evaluate_expression (py_eval some_host) ''10**308*10.0''
     = Raised (Exc CalculatorError ''Error evaluating expression: Result is infinity'')"
    using infinity_and_nan_messages_are_wrapped by blast
  show ?thesis unfolding r s using a c i e eval_overflow [of some_host] by simp
qed

text \<open>
  C2, as stated, fails: \<open>^\<close> is not in the allow-list, so \<open>2^3\<close> is refused by the
  character check and never evaluated.
\<close>

theorem caret_power_counterexample:
  "evaluate_expression (py_eval some_host) ''2^3''
     = Raised (Exc CalculatorError ''Expression contains invalid characters'')"
  by (rule checks_caret)

text \<open>
  C2, amended. Exponentiation is written \<open>**\<close> and associates to the right:
  \<open>2**3\<close> is 8 and \<open>2**3**2\<close> is 512. Every input that contains \<open>^\<close> fails with
  "Expression contains invalid characters", whatever \<open>eval\<close> is.
\<close>

theorem power_is_double_star_only:
  "(\<forall>ev expression. CHR ''^'' \<in> set expression \<longrightarrow>
      evaluate_expression ev expression
        = Raised (Exc CalculatorError ''Expression contains invalid characters'')) \<and>
   (\<forall>H. evaluate_expression (py_eval H) ''2**3'' = Returned (Fin 8)) \<and>
   (\<forall>H. evaluate_expression (py_eval H) ''2**3**2'' = Returned (Fin 512))"
proof (intro conjI allI impI)
  fix ev expression assume c: "CHR ''^'' \<in> set expression"
  then have ne: "expression \<noteq> []" by auto
  from c have "CHR ''^'' \<in> set (replace expression '' '' [])" by (simp add: strip_spaces)
  moreover have "\<not> (CHR ''^'' \<in> allowed_chars \<or> isdigit CHR ''^'' \<or> CHR ''^'' \<in> set ''+-*/()'')"
    by (simp add: allowed_chars_def isdigit_def)
  ultimately have
    "\<not> list_all (\<lambda>c. c \<in> allowed_chars \<or> isdigit c \<or> c \<in> set ''+-*/()'')
         (replace expression '' '' [])"
    unfolding list_all_iff by blast
  with ne show "evaluate_expression ev expression
        = Raised (Exc CalculatorError ''Expression contains invalid characters'')"
    by (simp add: evaluate_expression_def calculator_error_def)
next
  fix H show "evaluate_expression (py_eval H) ''2**3'' = Returned (Fin 8)"
    by (simp add: checks_power eval_power guard_defs int_to_double_small)
next
  fix H
  have "evaluate_expression ev ''2**3**2'' = handlers (try_body ev ''2**3**2'')" for ev
    by (simp add: string_defs)
  then show "evaluate_expression (py_eval H) ''2**3**2'' = Returned (Fin 512)"
    by (simp add: eval_power_right guard_defs int_to_double_small)
qed

theorem power_is_double_star_only_witness:
  "CHR ''^'' \<in> set ''2^3'' \<and>
   evaluate_expression (py_eval some_host) ''2^3''
     = Raised (Exc CalculatorError ''Expression contains invalid characters'')"
  using power_is_double_star_only by simp

text \<open>
  C4. The letter \<open>s\<close> occurs in \<open>sqrt\<close>; the input \<open>s\<close> holds no function name
  (the substitution leaves it as it is), passes the character check and the parenthesis
  check and reaches \<open>eval\<close>. Whatever \<open>eval\<close> does, the result is not the "Expression
  contains invalid characters" error; under Python's \<open>eval\<close> it is the NameError of
  the unknown name, wrapped by the last handler.
\<close>

theorem lone_letter_passes_character_check:
  "CHR ''s'' \<in> set ''sqrt'' \<and> substitute ''s'' = ''s'' \<and>
   evaluate_expression ev ''s'' = handlers (try_body ev ''s'') \<and>
   evaluate_expression ev ''s''
     \<noteq> Raised (Exc CalculatorError ''Expression contains invalid characters'') \<and>
   evaluate_expression (py_eval H) ''s''
     = Raised (Exc CalculatorError ''Error evaluating expression: name 's' is not defined'')"
proof -
  have "substitute ''s'' = ''s''" by (simp add: string_defs)
  moreover have "evaluate_expression (py_eval H) ''s''
     = Raised (Exc CalculatorError ''Error evaluating expression: name 's' is not defined'')"
    by (simp add: checks_s eval_s guard_defs)
  ultimately show ?thesis
    by (simp add: checks_s handlers_not_invalid_characters)
qed

text \<open>
  C5. \<open>2 + 3\<close> evaluates to 5.0, \<open>(2 + 3) * 4\<close> to 20.0 and \<open>sqrt(16)\<close> to 4.0, on
  every host. The substitution turns \<open>sqrt(16)\<close> into \<open>math.sqrt(16)\<close>, the call of
  the square root on the same parenthesized argument.
\<close>

theorem evaluate_expression_examples:
  "evaluate_expression (py_eval H) ''2 + 3'' = Returned (Fin 5) \<and>
   evaluate_expression (py_eval H) ''(2 + 3) * 4'' = Returned (Fin 20) \<and>
   evaluate_expression (py_eval H) ''sqrt(16)'' = Returned (Fin 4) \<and>
   substitute ''sqrt(16)'' = ''math.sqrt(16)'' \<and>
   py_eval H ''math.sqrt(16)'' = Returned (Num (PyFloat (Fin 4)))"
  by (simp add: checks_2_plus_3 checks_product checks_sqrt_16 substitute_sqrt_16
      eval_2_plus_3 eval_product eval_sqrt_16 guard_defs int_to_double_small)

end
